theory Spec2Isabelle
  imports Complex_Main
begin

section \<open>Sentinel-2 cloud filtering and export: the script and its remote service\<close>

text \<open>
  The script \<^verbatim>\<open>sentinel2_cloud_export.py\<close> drives the Earth Engine service: for each fire
  polygon and each year it queries two image archives, scores the candidates by the share
  of cloudy pixels inside the area of interest, and either starts an export, retries with
  a longer window, or gives up; every decision is written as a row of a CSV file.

  The script's own functions are translated one by one, under their own names. What the
  service computes is given by an \<open>engine\<close> (the archives and the geometric queries the
  script cannot answer itself), and the pixel operations the script evaluates
  (\<^verbatim>\<open>gt\<close>, \<^verbatim>\<open>mask\<close>, \<^verbatim>\<open>updateMask\<close>, \<^verbatim>\<open>reduceRegion\<close>) follow the service's
  documentation. Numbers are exact reals. A request to the service (\<^verbatim>\<open>getInfo\<close>,
  \<^verbatim>\<open>task.start\<close>) may raise; which requests do is read from the state.
\<close>

subsection \<open>Global configuration (lines 20 to 25)\<close>

definition CLOUD_FILTER :: real where "CLOUD_FILTER = 50"
definition CLD_PRB_THRESH :: real where "CLD_PRB_THRESH = 30"
definition NIR_DRK_THRESH :: real where "NIR_DRK_THRESH = 0.15"
definition CLD_PRJ_DIST :: real where "CLD_PRJ_DIST = 1"
definition BUFFER :: real where "BUFFER = 50"
definition UMBRAL_NUBES :: real where "UMBRAL_NUBES = 15"

subsection \<open>Dates, geometries, rasters\<close>

record ee_date =
  year :: int
  month :: int
  day :: int

definition fromYMD :: "int \<Rightarrow> int \<Rightarrow> int \<Rightarrow> ee_date" where
  "fromYMD y m d = \<lparr>year = y, month = m, day = d\<rparr>"

text \<open>Dates are compared as the instants they stand for (midnight of the day).\<close>

definition date_less :: "ee_date \<Rightarrow> ee_date \<Rightarrow> bool" where
  "date_less a b =
     (year a < year b \<or>
      (year a = year b \<and> (month a < month b \<or> (month a = month b \<and> day a < day b))))"

definition date_le :: "ee_date \<Rightarrow> ee_date \<Rightarrow> bool" where
  "date_le a b = (date_less a b \<or> (year a = year b \<and> month a = month b \<and> day a = day b))"

text \<open>
  A geometry is the expression the client builds: the polygon of a fire (named by a
  number), its bounding box, a buffer around a geometry. The service alone knows what
  region it denotes.
\<close>

datatype geometry =
    Polygon nat
  | Bounds geometry
  | Buffer geometry real

text \<open>
  A raster gives, at every pixel of the grid, a value and a mask in \<open>[0, 1]\<close>
  (0: the pixel is masked).
\<close>

type_synonym pixel = "int \<times> int"
type_synonym raster = "pixel \<Rightarrow> real \<times> real"

text \<open>\<^verbatim>\<open>band.gt(c)\<close>: 1 where the value is strictly above \<open>c\<close>, else 0; the mask is kept.\<close>

definition ee_gt :: "raster \<Rightarrow> real \<Rightarrow> raster" where
  "ee_gt b c = (\<lambda>p. (if fst (b p) > c then 1 else 0, snd (b p)))"

text \<open>\<^verbatim>\<open>band.mask()\<close>: the mask of the band as values of an unmasked raster.\<close>

definition ee_mask :: "raster \<Rightarrow> raster" where
  "ee_mask b = (\<lambda>p. (snd (b p), 1))"

text \<open>
  \<^verbatim>\<open>band.updateMask(m)\<close>: where the band is not masked already, its mask becomes the value
  of \<open>m\<close> (0 where \<open>m\<close> is itself masked).
\<close>

definition ee_updateMask :: "raster \<Rightarrow> raster \<Rightarrow> raster" where
  "ee_updateMask b m =
     (\<lambda>p. (fst (b p),
            if snd (b p) = 0 then 0 else if snd (m p) = 0 then 0 else fst (m p)))"

text \<open>\<^verbatim>\<open>ee.Image(c)\<close>: the constant raster.\<close>

definition ee_Image_constant :: "real \<Rightarrow> raster" where
  "ee_Image_constant c = (\<lambda>p. (c, 1))"

text \<open>\<^verbatim>\<open>ee.Number.divide\<close> returns 0 for a division by 0.\<close>

definition ee_divide :: "real \<Rightarrow> real \<Rightarrow> real" where
  "ee_divide a b = (if b = 0 then 0 else a / b)"

definition ee_multiply :: "real \<Rightarrow> real \<Rightarrow> real" where
  "ee_multiply a b = a * b"

subsection \<open>Images, features and the service\<close>

text \<open>An image of \<^verbatim>\<open>COPERNICUS/S2_SR_HARMONIZED\<close>: the properties and the band the script reads.\<close>

record s2_image =
  system_index :: string
  system_time_start :: ee_date
  footprint :: geometry
  CLOUDY_PIXEL_PERCENTAGE :: real
  MEAN_SOLAR_AZIMUTH_ANGLE :: real
  B8 :: raster

text \<open>An image of \<^verbatim>\<open>COPERNICUS/S2_CLOUD_PROBABILITY\<close>.\<close>

record cloud_image =
  cld_system_index :: string
  cld_system_time_start :: ee_date
  cld_footprint :: geometry
  probability :: raster

text \<open>
  The join stores the matching cloud image under the property \<^verbatim>\<open>s2cloudless\<close>;
  \<^verbatim>\<open>set_cloudiness\<close> adds the property \<^verbatim>\<open>CLOUDY_PERCENT_AOI\<close>.
\<close>

record joined_image = s2_image +
  s2cloudless :: cloud_image

record scored_image = joined_image +
  CLOUDY_PERCENT_AOI :: real

text \<open>A fire of the feature collection (line 28).\<close>

record feature =
  fire_id :: string
  initialdat :: ee_date
  finaldate :: ee_date
  fire_geometry :: geometry

text \<open>
  What the service holds and computes: the two archives, the fire collection, whether two
  geometries intersect, the pixels of a region at a scale (each with the fraction of the
  pixel that the region covers), and the centroid of a geometry (longitude, latitude).
\<close>

record engine =
  S2_SR_HARMONIZED :: "s2_image list"
  S2_CLOUD_PROBABILITY :: "cloud_image list"
  incendios :: "feature list"
  intersects :: "geometry \<Rightarrow> geometry \<Rightarrow> bool"
  region_pixels :: "geometry \<Rightarrow> real \<Rightarrow> (pixel \<times> real) list"
  centroid :: "geometry \<Rightarrow> real \<Rightarrow> real \<times> real"

text \<open>
  \<^verbatim>\<open>band.reduceRegion(ee.Reducer.sum(), geometry, scale)\<close>: the weighted sum of the values
  over the pixels of the region, the weight of a pixel being the smaller of its mask and
  of the fraction of it inside the region. The sum over no pixel is 0.
\<close>

definition ee_reduceRegion_sum :: "engine \<Rightarrow> raster \<Rightarrow> geometry \<Rightarrow> real \<Rightarrow> real" where
  "ee_reduceRegion_sum eng b g scale =
     sum_list (map (\<lambda>(p, frac). fst (b p) * min (snd (b p)) frac) (region_pixels eng g scale))"

subsection \<open>Loading and joining the two collections (lines 35 to 55)\<close>

text \<open>
  \<^verbatim>\<open>ee.Join.saveFirst('s2cloudless')\<close> on equal \<^verbatim>\<open>system:index\<close>: every primary image with
  a match keeps its first match as a property; a primary image with no match is dropped.
\<close>

definition saveFirst_join :: "s2_image list \<Rightarrow> cloud_image list \<Rightarrow> joined_image list" where
  "saveFirst_join primary secondary =
     List.map_filter
       (\<lambda>img. case find (\<lambda>c. system_index img = cld_system_index c) secondary of
                 None \<Rightarrow> None
               | Some c \<Rightarrow> Some (s2_image.extend img (joined_image.fields c)))
       primary"

definition get_s2_sr_cld_col :: "engine \<Rightarrow> geometry \<Rightarrow> ee_date \<Rightarrow> ee_date \<Rightarrow> joined_image list" where
  "get_s2_sr_cld_col eng aoi start_date end_date =
     (let s2_sr_col =
            filter (\<lambda>img. CLOUDY_PIXEL_PERCENTAGE img \<le> CLOUD_FILTER)
              (filter (\<lambda>img. date_le start_date (system_time_start img) \<and>
                               date_less (system_time_start img) end_date)
                (filter (\<lambda>img. intersects eng (footprint img) aoi) (S2_SR_HARMONIZED eng)));
          s2_cloudless_col =
            filter (\<lambda>c. date_le start_date (cld_system_time_start c) \<and>
                           date_less (cld_system_time_start c) end_date)
              (filter (\<lambda>c. intersects eng (cld_footprint c) aoi) (S2_CLOUD_PROBABILITY eng))
      in saveFirst_join s2_sr_col s2_cloudless_col)"

subsection \<open>Cloudiness of an image inside the area of interest (lines 95 to 135)\<close>

definition get_cloud_percentage :: "engine \<Rightarrow> 'a joined_image_scheme \<Rightarrow> geometry \<Rightarrow> real" where
  "get_cloud_percentage eng image' aoi =
     (let cloud_prob = probability (s2cloudless image');
          cloud_mask = ee_gt cloud_prob CLD_PRB_THRESH;
          valid_mask = ee_gt (ee_mask (B8 image')) 0;
          cloud_mask = ee_updateMask cloud_mask valid_mask;
          cloud_area = ee_reduceRegion_sum eng cloud_mask aoi 10;
          total_area = ee_reduceRegion_sum eng (ee_updateMask (ee_Image_constant 1) valid_mask) aoi 10
      in ee_multiply (ee_divide cloud_area total_area) 100)"

text \<open>The function \<^verbatim>\<open>set_cloudiness\<close> is local to \<^verbatim>\<open>get_best_image_by_cloud_cover\<close> and reads its \<open>aoi\<close>.\<close>

definition set_cloudiness :: "engine \<Rightarrow> geometry \<Rightarrow> joined_image \<Rightarrow> scored_image" where
  "set_cloudiness eng aoi img =
     (let cloud_prob = probability (s2cloudless img);
          cloud_mask = ee_gt cloud_prob CLD_PRB_THRESH;
          valid_mask = ee_gt (ee_mask (B8 img)) 0;
          cloud_mask = ee_updateMask cloud_mask valid_mask;
          cloud_area = ee_reduceRegion_sum eng cloud_mask aoi 10;
          total_area = ee_reduceRegion_sum eng (ee_updateMask (ee_Image_constant 1) valid_mask) aoi 10;
          cloud_pct = ee_multiply (ee_divide cloud_area total_area) 100
      in joined_image.extend img (scored_image.fields cloud_pct))"

text \<open>
  \<^verbatim>\<open>col.sort('CLOUDY_PERCENT_AOI').first()\<close>: ascending order, the first element; no
  element (null) when the collection is empty.
\<close>

definition get_best_image_by_cloud_cover :: "engine \<Rightarrow> joined_image list \<Rightarrow> geometry \<Rightarrow> scored_image option" where
  "get_best_image_by_cloud_cover eng col aoi =
     (let col_with_cloud = map (set_cloudiness eng aoi) col;
          best_img = (case sort_key CLOUDY_PERCENT_AOI col_with_cloud of
                        [] \<Rightarrow> None
                      | first # _ \<Rightarrow> Some first)
      in best_img)"

subsection \<open>Cloud and shadow masking (lines 61 to 89)\<close>

text \<open>
  The script never evaluates the masked images: it hands them to the service inside an
  export job. They are kept as the expressions the client builds, one constructor for
  each operation of the service; the script's constants and the order of its calls are
  what these expressions record.
\<close>

datatype band_expr =
    Select_source joined_image string
  | Select_probability joined_image
  | Gt band_expr real
  | Lt band_expr real
  | Neq band_expr real
  | Add band_expr band_expr
  | Multiply band_expr band_expr
  | Not band_expr
  | DirectionalDistanceTransform_mask band_expr real real
  | Focal_min band_expr real
  | Focal_max band_expr real

text \<open>An image under construction: the source image and the bands added so far, by name.\<close>

record ee_image =
  source :: joined_image
  added :: "(string \<times> band_expr) list"

definition addBands :: "ee_image \<Rightarrow> (string \<times> band_expr) list \<Rightarrow> ee_image" where
  "addBands img bands = img\<lparr>added := added img @ bands\<rparr>"

definition select :: "ee_image \<Rightarrow> string \<Rightarrow> band_expr" where
  "select img name =
     (case map_of (rev (added img)) name of
        Some b \<Rightarrow> b
      | None \<Rightarrow> Select_source (source img) name)"

definition add_cloud_bands :: "ee_image \<Rightarrow> ee_image" where
  "add_cloud_bands img =
     (let cld_prb = Select_probability (source img);
          is_cloud = Gt cld_prb CLD_PRB_THRESH
      in addBands img [(''cloud_prob'', cld_prb), (''clouds'', is_cloud)])"

definition add_shadow_bands :: "ee_image \<Rightarrow> ee_image" where
  "add_shadow_bands img =
     (let not_water = Neq (select img ''SCL'') 6;
          dark_pixels = Multiply (Lt (select img ''B8'') (NIR_DRK_THRESH * 10000)) not_water;
          shadow_azimuth = 90 - MEAN_SOLAR_AZIMUTH_ANGLE (source img);
          cld_proj = DirectionalDistanceTransform_mask (select img ''clouds'')
                       shadow_azimuth (CLD_PRJ_DIST * 10);
          shadows = Multiply cld_proj dark_pixels
      in addBands img
           [(''dark_pixels'', dark_pixels), (''cloud_transform'', cld_proj), (''shadows'', shadows)])"

definition add_cld_shdw_mask :: "ee_image \<Rightarrow> ee_image" where
  "add_cld_shdw_mask img =
     (let img_cloud = add_cloud_bands img;
          img_shadow = add_shadow_bands img_cloud;
          is_cld_shdw =
            Focal_max
              (Focal_min (Gt (Add (select img_shadow ''clouds'') (select img_shadow ''shadows'')) 0) 2)
              (BUFFER * 2 / 20)
      in addBands img_shadow [(''cloudmask'', is_cld_shdw)])"

text \<open>\<^verbatim>\<open>img.select('B.*').updateMask(not_cld_shdw)\<close>: the optical bands under a mask.\<close>

datatype masked_bands = Select_B_updateMask ee_image band_expr

definition apply_cld_shdw_mask :: "ee_image \<Rightarrow> masked_bands" where
  "apply_cld_shdw_mask img =
     (let not_cld_shdw = Not (select img ''cloudmask'')
      in Select_B_updateMask img not_cld_shdw)"

text \<open>\<^verbatim>\<open>col.median().clip(aoi)\<close>.\<close>

datatype composite = Median_clip "masked_bands list" geometry

definition getCloudFreeComposite :: "engine \<Rightarrow> geometry \<Rightarrow> ee_date \<Rightarrow> ee_date \<Rightarrow> composite" where
  "getCloudFreeComposite eng aoi start end' =
     (let col = map apply_cld_shdw_mask
                  (map add_cld_shdw_mask
                     (map (\<lambda>img. \<lparr>source = img, added = []\<rparr>) (get_s2_sr_cld_col eng aoi start end')))
      in Median_clip col aoi)"

subsection \<open>The state of a run: requests, the CSV file, the export jobs, the console\<close>

datatype exn = EEException

datatype cell = Str string | Num real

text \<open>The messages the script prints (the text of each is in the source line given).\<close>

datatype message =
    No_images_for string                \<comment> \<open>line 152\<close>
  | Cloud_percentage_error string exn   \<comment> \<open>line 161\<close>
  | Clouds_in string real               \<comment> \<open>line 165\<close>
  | Retrying_in_July string             \<comment> \<open>line 170\<close>
  | Image_discarded string              \<comment> \<open>line 174\<close>
  | Exporting string                    \<comment> \<open>line 191\<close>
  | EPSG_for string string              \<comment> \<open>line 210\<close>
  | Error_in string exn                 \<comment> \<open>line 226\<close>

text \<open>The arguments of \<^verbatim>\<open>ee.batch.Export.image.toDrive\<close> (lines 180 to 189).\<close>

record export_task =
  task_image :: composite
  task_description :: string
  task_folder :: string
  task_fileNamePrefix :: string
  task_region :: geometry
  task_crs :: string
  task_scale :: real
  task_maxPixels :: real

text \<open>
  \<open>faults\<close> lists, for the requests still to come, whether each one raises; once it is
  used up every request succeeds. \<open>rows\<close> is the content of \<^verbatim>\<open>resultados_nubes.csv\<close>,
  \<open>tasks\<close> the export jobs started, \<open>console\<close> what was printed, and
  \<open>incendios_features\<close> the list of fires the script holds.
\<close>

record world =
  faults :: "bool list"
  rows :: "cell list list"
  tasks :: "export_task list"
  console :: "message list"
  incendios_features :: "feature list"

definition py_print :: "message \<Rightarrow> world \<Rightarrow> world" where
  "py_print m w = w\<lparr>console := console w @ [m]\<rparr>"

definition writerow :: "cell list \<Rightarrow> world \<Rightarrow> world" where
  "writerow r w = w\<lparr>rows := rows w @ [r]\<rparr>"

definition next_fault :: "world \<Rightarrow> bool \<times> world" where
  "next_fault w = (case faults w of [] \<Rightarrow> (False, w) | f # fs \<Rightarrow> (f, w\<lparr>faults := fs\<rparr>))"

text \<open>
  \<^verbatim>\<open>x.getInfo()\<close>: one request. It raises when the service cannot compute the value
  (\<open>None\<close>) and when the request itself fails.
\<close>

definition getInfo :: "'a option \<Rightarrow> world \<Rightarrow> (exn + 'a) \<times> world" where
  "getInfo v w =
     (let (fault, w') = next_fault w
      in case v of
           None \<Rightarrow> (Inl EEException, w')
         | Some x \<Rightarrow> (if fault then Inl EEException else Inr x, w'))"

text \<open>\<^verbatim>\<open>task.start()\<close>: one request; the job exists once it has succeeded.\<close>

definition task_start :: "export_task \<Rightarrow> world \<Rightarrow> (exn + unit) \<times> world" where
  "task_start task w =
     (let (fault, w') = next_fault w
      in if fault then (Inl EEException, w') else (Inr (), w'\<lparr>tasks := tasks w' @ [task]\<rparr>))"

definition toDrive :: "composite \<Rightarrow> string \<Rightarrow> string \<Rightarrow> string \<Rightarrow> geometry \<Rightarrow> string \<Rightarrow> real \<Rightarrow> real \<Rightarrow> export_task" where
  "toDrive image' description folder fileNamePrefix region crs scale maxPixels =
     \<lparr>task_image = image', task_description = description, task_folder = folder,
      task_fileNamePrefix = fileNamePrefix, task_region = region, task_crs = crs,
      task_scale = scale, task_maxPixels = maxPixels\<rparr>"

subsection \<open>Evaluating one window and exporting (lines 148 to 193)\<close>

function try_export_image ::
  "engine \<Rightarrow> string \<Rightarrow> geometry \<Rightarrow> ee_date \<Rightarrow> ee_date \<Rightarrow> string \<Rightarrow> world \<Rightarrow> (exn + bool) \<times> world" where
  "try_export_image eng nombre aoi start end' epsg w =
     (let col = get_s2_sr_cld_col eng aoi start end' in
      (case getInfo (Some (length col)) w of
         (Inl e, w1) \<Rightarrow> (Inl e, w1)
       | (Inr n, w1) \<Rightarrow>
          (if n = 0 then
             (Inr False,
              writerow [Str nombre, Str '''', Str ''No images''] (py_print (No_images_for nombre) w1))
           else
            (let img = get_best_image_by_cloud_cover eng col aoi in
             (case getInfo (map_option (\<lambda>i. get_cloud_percentage eng i aoi) img) w1 of
                (Inl e, w2) \<Rightarrow>
                  (Inr False,
                   writerow [Str nombre, Str '''', Str ''Cloud error'']
                     (py_print (Cloud_percentage_error nombre e) w2))
              | (Inr cloud_percentage, w2) \<Rightarrow>
                 (let w3 = py_print (Clouds_in nombre cloud_percentage) w2 in
                  (if cloud_percentage > UMBRAL_NUBES then
                     (case getInfo (Some (month end')) w3 of
                        (Inl e, w4) \<Rightarrow> (Inl e, w4)
                      | (Inr m, w4) \<Rightarrow>
                         (if m = 6 then
                            (let w5 = py_print (Retrying_in_July nombre) w4 in
                             (case getInfo (Some (year end')) w5 of
                                (Inl e, w6) \<Rightarrow> (Inl e, w6)
                              | (Inr y, w6) \<Rightarrow>
                                 (let end_july = fromYMD y 7 15 in
                                  try_export_image eng nombre aoi start end_july epsg w6)))
                          else
                            (Inr False,
                             writerow [Str nombre, Num cloud_percentage, Str ''Discarded'']
                               (py_print (Image_discarded nombre) w4))))
                   else
                     (let img_export = getCloudFreeComposite eng aoi start end';
                          task = toDrive img_export (''S2_'' @ nombre)
                                   (''Incendios_Europa_a'' @ [CHR 0xC3, CHR 0xB1] @ ''os'')
                                   nombre aoi epsg 20 (10 ^ 13)
                      in (case task_start task w3 of
                            (Inl e, w4) \<Rightarrow> (Inl e, w4)
                          | (Inr u, w4) \<Rightarrow>
                             (Inr True,
                              writerow [Str nombre, Num cloud_percentage, Str ''Exported'']
                                (py_print (Exporting nombre) w4)))))))))))"
  by pat_completeness auto
termination
  apply (relation "measure (\<lambda>(eng, nombre, aoi, start, end', epsg, w). if month end' = 6 then 1 else 0)")
   apply simp
  apply (auto simp: getInfo_def fromYMD_def split: prod.splits if_splits)
  done

declare try_export_image.simps [simp del]

subsection \<open>The loop over fires and years (lines 199 to 237)\<close>

text \<open>Python's \<^verbatim>\<open>str\<close> of an integer, and the format \<^verbatim>\<open>:02d\<close> (two places, filled with zeros).\<close>

fun digits_of :: "nat \<Rightarrow> string" where
  "digits_of n =
     (if n < 10 then [''0123456789'' ! n]
      else digits_of (n div 10) @ [''0123456789'' ! (n mod 10)])"

declare digits_of.simps [simp del]

definition str_int :: "int \<Rightarrow> string" where
  "str_int i = (if i < 0 then ''-'' @ digits_of (nat (- i)) else digits_of (nat i))"

definition format_02d :: "int \<Rightarrow> string" where
  "format_02d i =
     (if i < 0 then ''-'' @ digits_of (nat (- i))
      else (let s = digits_of (nat i) in if length s < 2 then ''0'' @ s else s))"

text \<open>Python's \<^verbatim>\<open>int\<close> of a float truncates towards zero.\<close>

definition py_int :: "real \<Rightarrow> int" where
  "py_int x = (if x < 0 then \<lceil>x\<rceil> else \<lfloor>x\<rfloor>)"

text \<open>Python's \<^verbatim>\<open>range(a, b)\<close>: from \<open>a\<close> up to \<open>b\<close>, without \<open>b\<close>.\<close>

definition py_range :: "int \<Rightarrow> int \<Rightarrow> int list" where
  "py_range a b = [a..b - 1]"

text \<open>
  The body of the \<^verbatim>\<open>for anio in range(...)\<close> loop of \<^verbatim>\<open>process_feature\<close> (lines 216 to 226),
  over the years still to visit.
\<close>

fun process_feature_years ::
  "engine \<Rightarrow> string \<Rightarrow> geometry \<Rightarrow> string \<Rightarrow> int list \<Rightarrow> world \<Rightarrow> world" where
  "process_feature_years eng incendioID aoi epsg [] w = w"
| "process_feature_years eng incendioID aoi epsg (anio # rest) w =
     (let start = fromYMD anio 5 15;
          end' = fromYMD anio 6 15;
          nombre = incendioID @ ''_'' @ str_int anio
      in (case try_export_image eng nombre aoi start end' epsg w of
            (Inl e, w') \<Rightarrow>
              process_feature_years eng incendioID aoi epsg rest (py_print (Error_in nombre e) w')
          | (Inr exported, w') \<Rightarrow>
              process_feature_years eng incendioID aoi epsg rest w'))"

definition process_feature :: "engine \<Rightarrow> feature \<Rightarrow> world \<Rightarrow> (exn + unit) \<times> world" where
  "process_feature eng incendio w =
     (case getInfo (Some (fire_id incendio)) w of
        (Inl e, w1) \<Rightarrow> (Inl e, w1)
      | (Inr incendioID, w1) \<Rightarrow>
         (let fechaInicio = initialdat incendio;
              geom = fire_geometry incendio;
              aoi = Buffer (Bounds geom) 3000;
              lon = fst (centroid eng aoi 1);
              huso = real_of_int \<lfloor>(lon + 180) / 6\<rfloor> + 1
          in (case getInfo (Some huso) w1 of
                (Inl e, w2) \<Rightarrow> (Inl e, w2)
              | (Inr h, w2) \<Rightarrow>
                 (let epsg = ''EPSG:258'' @ format_02d (py_int h);
                      w3 = py_print (EPSG_for incendioID epsg) w2
                  in (case getInfo (Some (year fechaInicio)) w3 of
                        (Inl e, w4) \<Rightarrow> (Inl e, w4)
                      | (Inr anioInicio, w4) \<Rightarrow>
                          (Inr (),
                           process_feature_years eng incendioID aoi epsg
                             (py_range (anioInicio + 1) 2024) w4))))))"

text \<open>The \<^verbatim>\<open>for ftr in incendios_features\<close> loop (lines 236 and 237): an exception ends it.\<close>

fun process_features :: "engine \<Rightarrow> feature list \<Rightarrow> world \<Rightarrow> (exn + unit) \<times> world" where
  "process_features eng [] w = (Inr (), w)"
| "process_features eng (ftr # rest) w =
     (case process_feature eng ftr w of
        (Inl e, w') \<Rightarrow> (Inl e, w')
      | (Inr u, w') \<Rightarrow> process_features eng rest w')"

text \<open>
  The script's last block (lines 232 to 237): the file is opened for writing (so it starts
  empty), the header is written, the fires are fetched and processed in order.
\<close>

definition header :: "cell list" where
  "header = [Str ''Name'', Str ''% Clouds'', Str ''Status'']"

definition main :: "engine \<Rightarrow> world \<Rightarrow> (exn + unit) \<times> world" where
  "main eng w =
     (let w0 = writerow header (w\<lparr>rows := []\<rparr>)
      in (case getInfo (Some (incendios eng)) w0 of
            (Inl e, w1) \<Rightarrow> (Inl e, w1)
          | (Inr features, w1) \<Rightarrow>
              process_features eng features (w1\<lparr>incendios_features := features\<rparr>)))"

subsection \<open>Requests that raise\<close>

text \<open>
  \<open>fault_at i w\<close>: the request number \<open>i\<close> from now (counting from 0) raises.
  \<open>after_requests k w\<close>: the state once \<open>k\<close> requests have been made.
  \<open>requests_succeed k w\<close>: none of the next \<open>k\<close> requests raises.
\<close>

definition fault_at :: "nat \<Rightarrow> world \<Rightarrow> bool" where
  "fault_at i w = (i < length (faults w) \<and> faults w ! i)"

definition after_requests :: "nat \<Rightarrow> world \<Rightarrow> world" where
  "after_requests k w = w\<lparr>faults := drop k (faults w)\<rparr>"

definition requests_succeed :: "nat \<Rightarrow> world \<Rightarrow> bool" where
  "requests_succeed k w = (True \<notin> set (take k (faults w)))"

subsection \<open>The rows of the output file\<close>

text \<open>
  A data row as the specification describes it: a name, a cloud percentage and a status of
  the fixed set. The percentage is a number for an exported or discarded image and the
  empty string when there was no image or no percentage.
\<close>

fun data_row :: "cell list \<Rightarrow> bool" where
  "data_row [Str nombre, Num p, Str status] = (status = ''Exported'' \<or> status = ''Discarded'')"
| "data_row [Str nombre, Str p, Str status] =
     (p = '''' \<and> (status = ''No images'' \<or> status = ''Cloud error''))"
| "data_row row = False"

text \<open>The message of line 226: an attempt ended by an exception.\<close>

fun is_Error_in :: "message \<Rightarrow> bool" where
  "is_Error_in (Error_in nombre e) = True"
| "is_Error_in m = False"

subsection \<open>A small archive, on which the script can be run\<close>

text \<open>
  One fire near Madrid, detected in 2021, and a region of four pixels. Image A (May 2022)
  and image C (May 2023) have one cloudy pixel of the four (25 per cent); images B (June
  2022) and D (July 2023) are clear; image E is clear but its metadata says 90 per cent of
  clouds; image G (May 2020) has one cloudy pixel and no clear companion.
\<close>

definition valid_everywhere :: raster where
  "valid_everywhere = (\<lambda>p. (1200, 1))"

definition clear_sky :: raster where
  "clear_sky = (\<lambda>p. (5, 1))"

definition one_cloud :: raster where
  "one_cloud = (\<lambda>p. (if p = (0, 0) then 80 else 10, 1))"

definition example_s2 :: "string \<Rightarrow> ee_date \<Rightarrow> real \<Rightarrow> s2_image" where
  "example_s2 idx t cpp =
     \<lparr>system_index = idx, system_time_start = t, footprint = Polygon 7,
      CLOUDY_PIXEL_PERCENTAGE = cpp, MEAN_SOLAR_AZIMUTH_ANGLE = 150, B8 = valid_everywhere\<rparr>"

definition example_cloud :: "string \<Rightarrow> ee_date \<Rightarrow> raster \<Rightarrow> cloud_image" where
  "example_cloud idx t prob =
     \<lparr>cld_system_index = idx, cld_system_time_start = t, cld_footprint = Polygon 7,
      probability = prob\<rparr>"

definition example_joined :: "string \<Rightarrow> ee_date \<Rightarrow> real \<Rightarrow> raster \<Rightarrow> joined_image" where
  "example_joined idx t cpp prob =
     s2_image.extend (example_s2 idx t cpp) (joined_image.fields (example_cloud idx t prob))"

definition example_fire :: feature where
  "example_fire =
     \<lparr>fire_id = ''F1'', initialdat = fromYMD 2021 8 10, finaldate = fromYMD 2021 8 20,
      fire_geometry = Polygon 0\<rparr>"

definition fire_of_2023 :: feature where
  "fire_of_2023 =
     \<lparr>fire_id = ''F2'', initialdat = fromYMD 2023 7 1, finaldate = fromYMD 2023 7 9,
      fire_geometry = Polygon 1\<rparr>"

definition example_aoi :: geometry where
  "example_aoi = Buffer (Bounds (Polygon 0)) 3000"

definition example_engine :: engine where
  "example_engine =
     \<lparr>S2_SR_HARMONIZED =
        [example_s2 ''A'' (fromYMD 2022 5 20) 20, example_s2 ''B'' (fromYMD 2022 6 1) 10,
         example_s2 ''C'' (fromYMD 2023 5 20) 40, example_s2 ''D'' (fromYMD 2023 7 1) 5,
         example_s2 ''E'' (fromYMD 2022 5 25) 90, example_s2 ''G'' (fromYMD 2020 5 20) 30],
      S2_CLOUD_PROBABILITY =
        [example_cloud ''A'' (fromYMD 2022 5 20) one_cloud, example_cloud ''B'' (fromYMD 2022 6 1) clear_sky,
         example_cloud ''C'' (fromYMD 2023 5 20) one_cloud, example_cloud ''D'' (fromYMD 2023 7 1) clear_sky,
         example_cloud ''E'' (fromYMD 2022 5 25) clear_sky, example_cloud ''G'' (fromYMD 2020 5 20) one_cloud],
      incendios = [example_fire],
      intersects = (\<lambda>a b. True),
      region_pixels = (\<lambda>g scale. [((0, 0), 1), ((0, 1), 1), ((1, 0), 1), ((1, 1), 1)]),
      centroid = (\<lambda>g maxError. (- 3.7, 40.4))\<rparr>"

definition example_world :: "bool list \<Rightarrow> world" where
  "example_world fs = \<lparr>faults = fs, rows = [], tasks = [], console = [], incendios_features = []\<rparr>"

definition example_engine_two_fires :: engine where
  "example_engine_two_fires = example_engine\<lparr>incendios := [example_fire, fire_of_2023]\<rparr>"

section \<open>Properties\<close>

subsection \<open>Requests and the state\<close>

lemma next_fault_eq: "next_fault w = (fault_at 0 w, after_requests 1 w)"
  by (cases "faults w") (simp_all add: next_fault_def fault_at_def after_requests_def)

lemma getInfo_eq:
  "getInfo v w =
     (case v of None \<Rightarrow> Inl EEException
              | Some x \<Rightarrow> if fault_at 0 w then Inl EEException else Inr x,
      after_requests 1 w)"
  by (simp add: getInfo_def next_fault_eq split: option.splits)

lemma task_start_eq:
  "task_start t w =
     (if fault_at 0 w then (Inl EEException, after_requests 1 w)
      else (Inr (), (after_requests 1 w)\<lparr>tasks := tasks w @ [t]\<rparr>))"
  by (simp add: task_start_def next_fault_eq after_requests_def)

lemma after_requests_fields [simp]:
  "rows (after_requests k w) = rows w"
  "tasks (after_requests k w) = tasks w"
  "console (after_requests k w) = console w"
  "incendios_features (after_requests k w) = incendios_features w"
  "faults (after_requests k w) = drop k (faults w)"
  by (simp_all add: after_requests_def)

lemma after_requests_twice [simp]:
  "after_requests j (after_requests k w) = after_requests (k + j) w"
  by (simp add: after_requests_def add.commute)

lemma fault_at_after_requests [simp]:
  "fault_at i (after_requests k w) = fault_at (k + i) w"
  by (auto simp: fault_at_def after_requests_def)

lemma py_print_fields [simp]:
  "rows (py_print m w) = rows w"
  "tasks (py_print m w) = tasks w"
  "console (py_print m w) = console w @ [m]"
  "incendios_features (py_print m w) = incendios_features w"
  "faults (py_print m w) = faults w"
  by (simp_all add: py_print_def)

lemma writerow_fields [simp]:
  "rows (writerow r w) = rows w @ [r]"
  "tasks (writerow r w) = tasks w"
  "console (writerow r w) = console w"
  "incendios_features (writerow r w) = incendios_features w"
  "faults (writerow r w) = faults w"
  by (simp_all add: writerow_def)

lemma fault_at_py_print [simp]: "fault_at i (py_print m w) = fault_at i w"
  by (simp add: fault_at_def)

lemma fault_at_writerow [simp]: "fault_at i (writerow r w) = fault_at i w"
  by (simp add: fault_at_def)

lemma after_requests_py_print [simp]:
  "after_requests k (py_print m w) = py_print m (after_requests k w)"
  by (simp add: after_requests_def py_print_def)

lemma requests_succeed_fault_at:
  "requests_succeed k w \<Longrightarrow> i < k \<Longrightarrow> \<not> fault_at i w"
  by (auto simp: requests_succeed_def fault_at_def in_set_conv_nth)

lemma fromYMD_fields [simp]:
  "year (fromYMD y m d) = y" "month (fromYMD y m d) = m" "day (fromYMD y m d) = d"
  by (simp_all add: fromYMD_def)

subsection \<open>The score of an image\<close>

lemma set_cloudiness_score:
  "CLOUDY_PERCENT_AOI (set_cloudiness eng aoi img) = get_cloud_percentage eng img aoi"
  by (simp add: set_cloudiness_def get_cloud_percentage_def Let_def joined_image.defs scored_image.defs)

lemma set_cloudiness_extend:
  "set_cloudiness eng aoi img =
     joined_image.extend img (scored_image.fields (get_cloud_percentage eng img aoi))"
  by (simp add: set_cloudiness_def get_cloud_percentage_def Let_def)

lemma get_cloud_percentage_extend:
  "get_cloud_percentage eng (joined_image.extend img ext) aoi = get_cloud_percentage eng img aoi"
  by (simp add: get_cloud_percentage_def Let_def joined_image.defs)

lemma get_cloud_percentage_set_cloudiness:
  "get_cloud_percentage eng (set_cloudiness eng aoi img) aoi = get_cloud_percentage eng img aoi"
  by (simp add: set_cloudiness_extend get_cloud_percentage_extend)

lemma get_best_Some:
  assumes "col \<noteq> []"
  shows "\<exists>x\<in>set col. get_best_image_by_cloud_cover eng col aoi = Some (set_cloudiness eng aoi x)
          \<and> (\<forall>y\<in>set col. get_cloud_percentage eng x aoi \<le> get_cloud_percentage eng y aoi)"
proof -
  let ?scored = "map (set_cloudiness eng aoi) col"
  let ?sorted = "sort_key CLOUDY_PERCENT_AOI ?scored"
  from assms have "?sorted \<noteq> []"
    by (metis length_0_conv length_map length_sort)
  then obtain b rest where br: "?sorted = b # rest"
    by (cases ?sorted) auto
  have "b \<in> set ?sorted" using br by simp
  then have "b \<in> set ?scored" by simp
  then obtain x where x: "x \<in> set col" "b = set_cloudiness eng aoi x" by auto
  have srt: "sorted (map CLOUDY_PERCENT_AOI (b # rest))"
    using sorted_sort_key [of CLOUDY_PERCENT_AOI ?scored] br by simp
  have le: "get_cloud_percentage eng x aoi \<le> get_cloud_percentage eng y aoi" if "y \<in> set col" for y
  proof -
    from that have "set_cloudiness eng aoi y \<in> set (b # rest)"
      using br [symmetric] by simp
    then have "CLOUDY_PERCENT_AOI b \<le> CLOUDY_PERCENT_AOI (set_cloudiness eng aoi y)"
      using srt by auto
    then show ?thesis using x(2) by (simp add: set_cloudiness_score)
  qed
  have "get_best_image_by_cloud_cover eng col aoi = Some b"
    using br by (simp add: get_best_image_by_cloud_cover_def)
  with x le show ?thesis by auto
qed

lemma get_best_None: "get_best_image_by_cloud_cover eng [] aoi = None"
  by (simp add: get_best_image_by_cloud_cover_def)

lemma get_best_is_scored:
  assumes "get_best_image_by_cloud_cover eng col aoi = Some best"
  shows "\<exists>x\<in>set col. best = set_cloudiness eng aoi x"
proof -
  from assms have "col \<noteq> []" by (auto simp: get_best_None)
  from get_best_Some [OF this, of eng aoi] assms show ?thesis by auto
qed

lemma cloudy_pixel_percentage_filter:
  "img \<in> set (get_s2_sr_cld_col eng aoi start end') \<Longrightarrow> CLOUDY_PIXEL_PERCENTAGE img \<le> 50"
  by (auto simp: get_s2_sr_cld_col_def saveFirst_join_def Let_def List.map_filter_def CLOUD_FILTER_def
      s2_image.defs joined_image.defs split: option.splits)

lemma get_cloud_percentage_formula:
  "get_cloud_percentage eng img aoi =
     (let cloud_area = (\<Sum>(p, frac) \<leftarrow> region_pixels eng aoi 10.
            (if fst (probability (s2cloudless img) p) > 30 then 1 else 0) *
            min (if snd (probability (s2cloudless img) p) = 0 then 0
                 else if snd (B8 img p) > 0 then 1 else 0) frac);
          valid_area = (\<Sum>(p, frac) \<leftarrow> region_pixels eng aoi 10.
            min (if snd (B8 img p) > 0 then 1 else 0) frac)
      in (if valid_area = 0 then 0 else cloud_area / valid_area) * 100)"
  by (simp add: get_cloud_percentage_def Let_def ee_reduceRegion_sum_def ee_updateMask_def ee_gt_def
      ee_mask_def ee_Image_constant_def ee_divide_def ee_multiply_def CLD_PRB_THRESH_def split_def
      cong: if_cong)

subsection \<open>One call of \<^verbatim>\<open>try_export_image\<close>, request by request\<close>

lemma try_export_image_unfold:
  "try_export_image eng nombre aoi start end' epsg w =
     (let col = get_s2_sr_cld_col eng aoi start end' in
      if fault_at 0 w then (Inl EEException, after_requests 1 w)
      else if col = [] then
        (Inr False,
         writerow [Str nombre, Str '''', Str ''No images'']
           (py_print (No_images_for nombre) (after_requests 1 w)))
      else
        (case get_best_image_by_cloud_cover eng col aoi of
           None \<Rightarrow>
             (Inr False,
              writerow [Str nombre, Str '''', Str ''Cloud error'']
                (py_print (Cloud_percentage_error nombre EEException) (after_requests 2 w)))
         | Some best \<Rightarrow>
            (let cloud_percentage = get_cloud_percentage eng best aoi in
             if fault_at 1 w then
               (Inr False,
                writerow [Str nombre, Str '''', Str ''Cloud error'']
                  (py_print (Cloud_percentage_error nombre EEException) (after_requests 2 w)))
             else if cloud_percentage > UMBRAL_NUBES then
               (if fault_at 2 w then
                  (Inl EEException, py_print (Clouds_in nombre cloud_percentage) (after_requests 3 w))
                else if month end' = 6 then
                  (if fault_at 3 w then
                     (Inl EEException,
                      py_print (Retrying_in_July nombre)
                        (py_print (Clouds_in nombre cloud_percentage) (after_requests 4 w)))
                   else
                     try_export_image eng nombre aoi start (fromYMD (year end') 7 15) epsg
                       (py_print (Retrying_in_July nombre)
                          (py_print (Clouds_in nombre cloud_percentage) (after_requests 4 w))))
                else
                  (Inr False,
                   writerow [Str nombre, Num cloud_percentage, Str ''Discarded'']
                     (py_print (Image_discarded nombre)
                        (py_print (Clouds_in nombre cloud_percentage) (after_requests 3 w)))))
             else if fault_at 2 w then
               (Inl EEException, py_print (Clouds_in nombre cloud_percentage) (after_requests 3 w))
             else
               (Inr True,
                writerow [Str nombre, Num cloud_percentage, Str ''Exported'']
                  (py_print (Exporting nombre)
                     ((py_print (Clouds_in nombre cloud_percentage) (after_requests 3 w))
                        \<lparr>tasks := tasks w @
                           [toDrive (getCloudFreeComposite eng aoi start end') (''S2_'' @ nombre)
                              (''Incendios_Europa_a'' @ [CHR 0xC3, CHR 0xB1] @ ''os'')
                              nombre aoi epsg 20 (10 ^ 13)]\<rparr>))))))"
  apply (subst try_export_image.simps)
  apply (simp add: Let_def getInfo_eq task_start_eq eval_nat_numeral split: option.splits)
  done

lemma try_export_image_outcome_no_retry:
  assumes "try_export_image eng nombre aoi start end' epsg w = (r, w')" and "month end' \<noteq> 6"
  shows "incendios_features w' = incendios_features w \<and>
    (case r of
       Inl e \<Rightarrow> rows w' = rows w \<and> tasks w' = tasks w
     | Inr b \<Rightarrow>
        if b then
          (\<exists>best. get_best_image_by_cloud_cover eng (get_s2_sr_cld_col eng aoi start end') aoi = Some best \<and>
                  get_cloud_percentage eng best aoi \<le> UMBRAL_NUBES \<and>
                  rows w' = rows w @ [[Str nombre, Num (get_cloud_percentage eng best aoi), Str ''Exported'']] \<and>
                  tasks w' = tasks w @
                    [toDrive (getCloudFreeComposite eng aoi start end') (''S2_'' @ nombre)
                       (''Incendios_Europa_a'' @ [CHR 0xC3, CHR 0xB1] @ ''os'') nombre aoi epsg 20 (10 ^ 13)])
        else
          tasks w' = tasks w \<and>
          (rows w' = rows w @ [[Str nombre, Str '''', Str ''No images'']] \<or>
           rows w' = rows w @ [[Str nombre, Str '''', Str ''Cloud error'']] \<or>
           (\<exists>best. get_best_image_by_cloud_cover eng (get_s2_sr_cld_col eng aoi start end') aoi = Some best \<and>
                  get_cloud_percentage eng best aoi > UMBRAL_NUBES \<and>
                  rows w' = rows w @ [[Str nombre, Num (get_cloud_percentage eng best aoi), Str ''Discarded'']])))"
  using assms
  apply (subst (asm) try_export_image_unfold)
  apply (simp add: Let_def split: if_splits option.splits)
  apply auto
  done

lemma try_export_image_outcome:
  assumes "try_export_image eng nombre aoi start end' epsg w = (r, w')"
  shows "incendios_features w' = incendios_features w \<and>
    (case r of
       Inl e \<Rightarrow> rows w' = rows w \<and> tasks w' = tasks w
     | Inr b \<Rightarrow>
        if b then
          (\<exists>e2 best. (e2 = end' \<or> month end' = 6 \<and> e2 = fromYMD (year end') 7 15) \<and>
                  get_best_image_by_cloud_cover eng (get_s2_sr_cld_col eng aoi start e2) aoi = Some best \<and>
                  get_cloud_percentage eng best aoi \<le> UMBRAL_NUBES \<and>
                  rows w' = rows w @ [[Str nombre, Num (get_cloud_percentage eng best aoi), Str ''Exported'']] \<and>
                  tasks w' = tasks w @
                    [toDrive (getCloudFreeComposite eng aoi start e2) (''S2_'' @ nombre)
                       (''Incendios_Europa_a'' @ [CHR 0xC3, CHR 0xB1] @ ''os'') nombre aoi epsg 20 (10 ^ 13)])
        else
          tasks w' = tasks w \<and>
          (rows w' = rows w @ [[Str nombre, Str '''', Str ''No images'']] \<or>
           rows w' = rows w @ [[Str nombre, Str '''', Str ''Cloud error'']] \<or>
           (\<exists>e2 best. (e2 = end' \<or> month end' = 6 \<and> e2 = fromYMD (year end') 7 15) \<and>
                  get_best_image_by_cloud_cover eng (get_s2_sr_cld_col eng aoi start e2) aoi = Some best \<and>
                  get_cloud_percentage eng best aoi > UMBRAL_NUBES \<and>
                  rows w' = rows w @ [[Str nombre, Num (get_cloud_percentage eng best aoi), Str ''Discarded'']])))"
proof (cases "month end' = 6")
  case False
  from try_export_image_outcome_no_retry [OF assms False] show ?thesis
    by (auto split: sum.splits if_splits)
next
  case True
  let ?july = "fromYMD (year end') 7 15"
  have july: "month ?july \<noteq> 6" by simp
  note rec = try_export_image_outcome_no_retry [where end' = ?july, OF _ july]
  show ?thesis
    using assms True
    apply (subst (asm) try_export_image_unfold)
    apply (simp add: Let_def split: if_splits option.splits)
    apply (auto dest!: rec split: sum.splits if_splits)
    done
qed

subsection \<open>The small archive, evaluated\<close>

lemma example_col_2022:
  "get_s2_sr_cld_col example_engine example_aoi (fromYMD 2022 5 15) (fromYMD 2022 6 15) =
     [example_joined ''A'' (fromYMD 2022 5 20) 20 one_cloud,
      example_joined ''B'' (fromYMD 2022 6 1) 10 clear_sky]"
  by (simp add: get_s2_sr_cld_col_def example_engine_def example_s2_def example_cloud_def
      example_joined_def saveFirst_join_def date_le_def date_less_def CLOUD_FILTER_def Let_def)

lemma pct_one_cloud:
  "get_cloud_percentage example_engine (example_joined idx t cpp one_cloud) aoi = 25"
  by (simp add: get_cloud_percentage_formula example_engine_def example_joined_def example_s2_def
      example_cloud_def one_cloud_def valid_everywhere_def s2_image.defs joined_image.defs)

lemma pct_clear_sky:
  "get_cloud_percentage example_engine (example_joined idx t cpp clear_sky) aoi = 0"
  by (simp add: get_cloud_percentage_formula example_engine_def example_joined_def example_s2_def
      example_cloud_def clear_sky_def valid_everywhere_def s2_image.defs joined_image.defs)

lemma example_best_2022:
  "get_best_image_by_cloud_cover example_engine
     [example_joined ''A'' (fromYMD 2022 5 20) 20 one_cloud,
      example_joined ''B'' (fromYMD 2022 6 1) 10 clear_sky] example_aoi =
   Some (set_cloudiness example_engine example_aoi (example_joined ''B'' (fromYMD 2022 6 1) 10 clear_sky))"
  by (simp add: get_best_image_by_cloud_cover_def set_cloudiness_score pct_one_cloud pct_clear_sky)

lemma example_col_2023_june:
  "get_s2_sr_cld_col example_engine example_aoi (fromYMD 2023 5 15) (fromYMD 2023 6 15) =
     [example_joined ''C'' (fromYMD 2023 5 20) 40 one_cloud]"
  by (simp add: get_s2_sr_cld_col_def example_engine_def example_s2_def example_cloud_def
      example_joined_def saveFirst_join_def date_le_def date_less_def CLOUD_FILTER_def Let_def)

lemma example_col_2023_july:
  "get_s2_sr_cld_col example_engine example_aoi (fromYMD 2023 5 15) (fromYMD 2023 7 15) =
     [example_joined ''C'' (fromYMD 2023 5 20) 40 one_cloud,
      example_joined ''D'' (fromYMD 2023 7 1) 5 clear_sky]"
  by (simp add: get_s2_sr_cld_col_def example_engine_def example_s2_def example_cloud_def
      example_joined_def saveFirst_join_def date_le_def date_less_def CLOUD_FILTER_def Let_def)

lemma example_col_2020_june:
  "get_s2_sr_cld_col example_engine example_aoi (fromYMD 2020 5 15) (fromYMD 2020 6 15) =
     [example_joined ''G'' (fromYMD 2020 5 20) 30 one_cloud]"
  by (simp add: get_s2_sr_cld_col_def example_engine_def example_s2_def example_cloud_def
      example_joined_def saveFirst_join_def date_le_def date_less_def CLOUD_FILTER_def Let_def)

lemma example_col_2020_july:
  "get_s2_sr_cld_col example_engine example_aoi (fromYMD 2020 5 15) (fromYMD 2020 7 15) =
     [example_joined ''G'' (fromYMD 2020 5 20) 30 one_cloud]"
  by (simp add: get_s2_sr_cld_col_def example_engine_def example_s2_def example_cloud_def
      example_joined_def saveFirst_join_def date_le_def date_less_def CLOUD_FILTER_def Let_def)

lemma example_col_2019:
  "get_s2_sr_cld_col example_engine example_aoi (fromYMD 2019 5 15) (fromYMD 2019 6 15) = []"
  by (simp add: get_s2_sr_cld_col_def example_engine_def example_s2_def example_cloud_def
      example_joined_def saveFirst_join_def date_le_def date_less_def CLOUD_FILTER_def Let_def)

lemma example_best_single:
  "get_best_image_by_cloud_cover example_engine [img] example_aoi =
     Some (set_cloudiness example_engine example_aoi img)"
  by (simp add: get_best_image_by_cloud_cover_def)

lemma example_best_2023_july:
  "get_best_image_by_cloud_cover example_engine
     [example_joined ''C'' (fromYMD 2023 5 20) 40 one_cloud,
      example_joined ''D'' (fromYMD 2023 7 1) 5 clear_sky] example_aoi =
   Some (set_cloudiness example_engine example_aoi (example_joined ''D'' (fromYMD 2023 7 1) 5 clear_sky))"
  by (simp add: get_best_image_by_cloud_cover_def set_cloudiness_score pct_one_cloud pct_clear_sky)

lemma example_world_fields [simp]:
  "faults (example_world fs) = fs" "rows (example_world fs) = []" "tasks (example_world fs) = []"
  "console (example_world fs) = []" "incendios_features (example_world fs) = []"
  by (simp_all add: example_world_def)

lemma no_fault_in_example_world [simp]: "\<not> fault_at i (example_world [])"
  by (simp add: fault_at_def)

subsection \<open>Termination and the single retry\<close>

lemma try_export_image_dom_all: "try_export_image_dom x"
proof -
  have "All try_export_image_dom"
    apply (rule "try_export_image.termination"
        [of "measure (\<lambda>(eng, nombre, aoi, start, end', epsg, w). if month end' = 6 then 1 else 0)"])
     apply simp
    apply (auto simp: getInfo_eq split: if_splits)
    done
  then show ?thesis by (rule spec)
qed

lemma try_export_image_rel_callee:
  assumes "try_export_image_rel (eng_c, nombre_c, aoi_c, start_c, end_c, epsg_c, w_c)
             (eng, nombre, aoi, start, end', epsg, w)"
  shows "month end' = 6 \<and> end_c = fromYMD (year end') 7 15 \<and> eng_c = eng \<and> nombre_c = nombre \<and>
         aoi_c = aoi \<and> start_c = start \<and> epsg_c = epsg"
  using assms
  by (cases rule: try_export_image_rel.cases) (auto simp: getInfo_eq split: if_splits)

lemma try_export_image_console_no_retry:
  assumes "month end' \<noteq> 6"
  shows "\<exists>ms. console (snd (try_export_image eng nombre aoi start end' epsg w)) = console w @ ms \<and>
              Retrying_in_July nombre \<notin> set ms"
  using assms
  apply (subst try_export_image_unfold)
  apply (simp add: Let_def split: if_splits option.splits)
  done

lemma try_export_image_console_retry_once:
  "\<exists>ms. console (snd (try_export_image eng nombre aoi start end' epsg w)) = console w @ ms \<and>
              length (filter (\<lambda>m. m = Retrying_in_July nombre) ms) \<le> 1"
proof (cases "month end' = 6")
  case False
  from try_export_image_console_no_retry [OF False, of eng nombre aoi start epsg w]
  obtain ms where ms: "console (snd (try_export_image eng nombre aoi start end' epsg w)) = console w @ ms"
    "Retrying_in_July nombre \<notin> set ms" by blast
  then have "filter (\<lambda>m. m = Retrying_in_July nombre) ms = []"
    by (auto simp: filter_empty_conv)
  with ms show ?thesis by auto
next
  case True
  let ?july = "fromYMD (year end') 7 15"
  have july: "month ?july \<noteq> 6" by simp
  have rec: "\<exists>ms. console (snd (try_export_image eng nombre aoi start ?july epsg w2)) = console w2 @ ms \<and>
      filter (\<lambda>m. m = Retrying_in_July nombre) ms = []" for w2
    using try_export_image_console_no_retry [OF july, of eng nombre aoi start epsg w2]
    by (auto simp: filter_empty_conv)
  show ?thesis
    using True
    apply (subst try_export_image_unfold)
    apply (simp add: Let_def split: if_splits option.splits)
    apply (intro conjI impI allI)
    subgoal for best
      using rec [of "py_print (Retrying_in_July nombre)
                       (py_print (Clouds_in nombre (get_cloud_percentage eng best aoi))
                          (after_requests 4 w))"]
      by (elim exE conjE) simp
    done
qed

lemma try_export_image_rel_retry_steps:
  assumes "\<not> fault_at 0 w" "\<not> fault_at 1 w" "\<not> fault_at 2 w" "\<not> fault_at 3 w"
    and "get_best_image_by_cloud_cover eng (get_s2_sr_cld_col eng aoi start end') aoi = Some best"
    and "get_cloud_percentage eng best aoi > UMBRAL_NUBES"
    and "month end' = 6"
  shows "try_export_image_rel
           (eng, nombre, aoi, start, fromYMD (year end') 7 15, epsg,
            after_requests 1 (py_print (Retrying_in_July nombre)
              (after_requests 1 (py_print (Clouds_in nombre (get_cloud_percentage eng best aoi))
                 (after_requests 2 w)))))
           (eng, nombre, aoi, start, end', epsg, w)"
proof -
  let ?col = "get_s2_sr_cld_col eng aoi start end'"
  let ?p = "get_cloud_percentage eng best aoi"
  let ?w1 = "after_requests 1 w"
  let ?w2 = "after_requests 2 w"
  let ?w3 = "py_print (Clouds_in nombre ?p) ?w2"
  let ?w4 = "after_requests 1 ?w3"
  let ?w5 = "py_print (Retrying_in_July nombre) ?w4"
  let ?w6 = "after_requests 1 ?w5"
  from assms(5) have ne: "length ?col \<noteq> 0"
    by (auto simp: get_best_None)
  show ?thesis
  proof (rule try_export_image_rel.intros)
    show "?col = get_s2_sr_cld_col eng aoi start end'" by simp
    show "(Inr (length ?col), ?w1) = getInfo (Some (length ?col)) w"
      using assms(1) by (simp add: getInfo_eq)
    show "Inr (length ?col) = Inr (length ?col)" by simp
    show "length ?col \<noteq> 0" by (rule ne)
    show "Some best = get_best_image_by_cloud_cover eng ?col aoi"
      using assms(5) by simp
    show "(Inr ?p, ?w2) = getInfo (map_option (\<lambda>i. get_cloud_percentage eng i aoi) (Some best)) ?w1"
      using assms(2) by (simp add: getInfo_eq numeral_2_eq_2)
    show "Inr ?p = Inr ?p" by simp
    show "?w3 = py_print (Clouds_in nombre ?p) ?w2" by simp
    show "UMBRAL_NUBES < ?p" by (rule assms(6))
    show "(Inr (month end'), ?w4) = getInfo (Some (month end')) ?w3"
      using assms(3) by (simp add: getInfo_eq)
    show "Inr (month end') = Inr (month end')" by simp
    show "month end' = 6" by (rule assms(7))
    show "?w5 = py_print (Retrying_in_July nombre) ?w4" by simp
    show "(Inr (year end'), ?w6) = getInfo (Some (year end')) ?w5"
      using assms(4) by (simp add: getInfo_eq)
    show "Inr (year end') = Inr (year end')" by simp
    show "fromYMD (year end') 7 15 = fromYMD (year end') 7 15" by simp
  qed
qed

lemma try_export_image_rel_retry_normal:
  assumes "\<not> fault_at 0 w" "\<not> fault_at 1 w" "\<not> fault_at 2 w" "\<not> fault_at 3 w"
    and "get_best_image_by_cloud_cover eng (get_s2_sr_cld_col eng aoi start end') aoi = Some best"
    and "get_cloud_percentage eng best aoi > UMBRAL_NUBES"
    and "month end' = 6"
  shows "try_export_image_rel
           (eng, nombre, aoi, start, fromYMD (year end') 7 15, epsg,
            py_print (Retrying_in_July nombre)
              (py_print (Clouds_in nombre (get_cloud_percentage eng best aoi)) (after_requests 4 w)))
           (eng, nombre, aoi, start, end', epsg, w)"
  using try_export_image_rel_retry_steps [OF assms, of nombre epsg] by simp

subsection \<open>Requests that succeed; the composite\<close>

lemma requests_succeed_4:
  "requests_succeed 4 w \<Longrightarrow> \<not> fault_at 0 w \<and> \<not> fault_at 1 w \<and> \<not> fault_at 2 w \<and> \<not> fault_at 3 w"
  by (simp add: requests_succeed_fault_at)

lemma requests_succeed_3:
  "requests_succeed 3 w \<Longrightarrow> \<not> fault_at 0 w \<and> \<not> fault_at 1 w \<and> \<not> fault_at 2 w"
  by (simp add: requests_succeed_fault_at)

lemma getCloudFreeComposite_eq:
  "getCloudFreeComposite eng aoi start end' =
     Median_clip
       (map (\<lambda>img. apply_cld_shdw_mask (add_cld_shdw_mask \<lparr>source = img, added = []\<rparr>))
          (get_s2_sr_cld_col eng aoi start end'))
       aoi"
  by (simp add: getCloudFreeComposite_def Let_def comp_def)

subsection \<open>What one call and one loop add to the file and to the jobs\<close>

lemma try_export_image_rows:
  assumes "try_export_image eng nombre aoi start end' epsg w = (r, w')"
  shows "\<exists>rs. rows w' = rows w @ rs \<and>
              length rs = (case r of Inl e \<Rightarrow> 0 | Inr b \<Rightarrow> 1) \<and>
              (\<forall>row\<in>set rs. data_row row \<and> hd row = Str nombre \<and>
                 (\<forall>p. row ! 1 = Num p \<longrightarrow>
                    (\<exists>s e best. get_best_image_by_cloud_cover eng (get_s2_sr_cld_col eng aoi s e) aoi = Some best \<and>
                        p = get_cloud_percentage eng best aoi)))"
proof (cases r)
  case (Inl e)
  with try_export_image_outcome [OF assms] have "rows w' = rows w @ []" by simp
  with Inl show ?thesis by (intro exI [of _ "[]"]) simp
next
  case (Inr b)
  show ?thesis
  proof (cases b)
    case True
    with Inr try_export_image_outcome [OF assms]
    obtain e2 best where
      best: "get_best_image_by_cloud_cover eng (get_s2_sr_cld_col eng aoi start e2) aoi = Some best"
      and rows: "rows w' = rows w @ [[Str nombre, Num (get_cloud_percentage eng best aoi), Str ''Exported'']]"
      by auto
    from best have "\<exists>s e b. get_best_image_by_cloud_cover eng (get_s2_sr_cld_col eng aoi s e) aoi = Some b \<and>
        get_cloud_percentage eng best aoi = get_cloud_percentage eng b aoi"
      by blast
    with rows Inr show ?thesis
      by (intro exI [of _ "[[Str nombre, Num (get_cloud_percentage eng best aoi), Str ''Exported'']]"]) simp
  next
    case False
    with Inr try_export_image_outcome [OF assms]
    consider
      (none) "rows w' = rows w @ [[Str nombre, Str '''', Str ''No images'']]"
    | (error) "rows w' = rows w @ [[Str nombre, Str '''', Str ''Cloud error'']]"
    | (discarded) e2 best where
        "get_best_image_by_cloud_cover eng (get_s2_sr_cld_col eng aoi start e2) aoi = Some best"
        "rows w' = rows w @ [[Str nombre, Num (get_cloud_percentage eng best aoi), Str ''Discarded'']]"
      by auto
    then show ?thesis
    proof cases
      case none
      with Inr show ?thesis
        by (intro exI [of _ "[[Str nombre, Str '''', Str ''No images'']]"]) simp
    next
      case error
      with Inr show ?thesis
        by (intro exI [of _ "[[Str nombre, Str '''', Str ''Cloud error'']]"]) simp
    next
      case discarded
      from discarded(1)
      have "\<exists>s e b. get_best_image_by_cloud_cover eng (get_s2_sr_cld_col eng aoi s e) aoi = Some b \<and>
        get_cloud_percentage eng best aoi = get_cloud_percentage eng b aoi"
        by blast
      with discarded(2) Inr show ?thesis
        by (intro exI [of _ "[[Str nombre, Num (get_cloud_percentage eng best aoi), Str ''Discarded'']]"]) simp
    qed
  qed
qed

lemma try_export_image_tasks:
  assumes "try_export_image eng nombre aoi start end' epsg w = (r, w')"
  shows "\<exists>ts. tasks w' = tasks w @ ts \<and>
              length ts = (if r = Inr True then 1 else 0) \<and>
              (\<forall>t\<in>set ts. task_region t = aoi \<and> task_crs t = epsg \<and>
                 (\<exists>s e. task_image t = getCloudFreeComposite eng aoi s e))"
proof (cases "r = Inr True")
  case True
  with try_export_image_outcome [OF assms]
  obtain e2 where
    "tasks w' = tasks w @
       [toDrive (getCloudFreeComposite eng aoi start e2) (''S2_'' @ nombre)
          (''Incendios_Europa_a'' @ [CHR 0xC3, CHR 0xB1] @ ''os'') nombre aoi epsg 20 (10 ^ 13)]"
    by auto
  with True show ?thesis
    by (intro exI [of _ "[toDrive (getCloudFreeComposite eng aoi start e2) (''S2_'' @ nombre)
          (''Incendios_Europa_a'' @ [CHR 0xC3, CHR 0xB1] @ ''os'') nombre aoi epsg 20 (10 ^ 13)]"])
       (auto simp: toDrive_def)
next
  case False
  with try_export_image_outcome [OF assms] have "tasks w' = tasks w @ []"
    by (cases r) (auto split: if_splits)
  with False show ?thesis by (intro exI [of _ "[]"]) simp
qed

lemma try_export_image_features:
  assumes "try_export_image eng nombre aoi start end' epsg w = (r, w')"
  shows "incendios_features w' = incendios_features w"
  using try_export_image_outcome [OF assms] by simp

lemma try_export_image_console_no_error:
  "\<exists>ms. console (snd (try_export_image eng nombre aoi start end' epsg w)) = console w @ ms \<and>
        (\<forall>m\<in>set ms. \<not> is_Error_in m)"
proof -
  have no_retry: "\<exists>ms. console (snd (try_export_image eng nombre aoi start d epsg v)) = console v @ ms \<and>
        (\<forall>m\<in>set ms. \<not> is_Error_in m)" if "month d \<noteq> 6" for d v
    using that
    apply (subst try_export_image_unfold)
    apply (simp add: Let_def split: if_splits option.splits)
    done
  show ?thesis
  proof (cases "month end' = 6")
    case False
    then show ?thesis by (rule no_retry)
  next
    case True
    have july: "month (fromYMD (year end') 7 15) \<noteq> 6" by simp
    show ?thesis
      using True
      apply (subst try_export_image_unfold)
      apply (simp add: Let_def split: if_splits option.splits)
      apply (intro conjI impI allI)
      subgoal for best
        using no_retry [OF july, of "py_print (Retrying_in_July nombre)
                         (py_print (Clouds_in nombre (get_cloud_percentage eng best aoi))
                            (after_requests 4 w))"]
        by (elim exE conjE) simp
      done
  qed
qed

lemma process_feature_years_Cons:
  assumes "try_export_image eng (incendioID @ ''_'' @ str_int anio) aoi
             (fromYMD anio 5 15) (fromYMD anio 6 15) epsg w = (r, w1)"
  shows "process_feature_years eng incendioID aoi epsg (anio # rest) w =
         process_feature_years eng incendioID aoi epsg rest
           (case r of Inl e \<Rightarrow> py_print (Error_in (incendioID @ ''_'' @ str_int anio) e) w1
                    | Inr exported \<Rightarrow> w1)"
  unfolding process_feature_years.simps Let_def assms
  by (cases r) simp_all

lemma process_feature_years_features:
  "incendios_features (process_feature_years eng incendioID aoi epsg years w) = incendios_features w"
proof (induction years arbitrary: w)
  case Nil
  show ?case by simp
next
  case (Cons anio rest)
  obtain r w1 where call: "try_export_image eng (incendioID @ ''_'' @ str_int anio) aoi
      (fromYMD anio 5 15) (fromYMD anio 6 15) epsg w = (r, w1)"
    by (cases "try_export_image eng (incendioID @ ''_'' @ str_int anio) aoi
      (fromYMD anio 5 15) (fromYMD anio 6 15) epsg w") auto
  from try_export_image_features [OF call] Cons.IH show ?case
    unfolding process_feature_years_Cons [OF call]
    by (cases r) simp_all
qed

lemma process_feature_years_tasks:
  "\<exists>ts. tasks (process_feature_years eng incendioID aoi epsg years w) = tasks w @ ts \<and>
        (\<forall>t\<in>set ts. task_region t = aoi \<and> task_crs t = epsg \<and>
            (\<exists>s e. task_image t = getCloudFreeComposite eng aoi s e))"
proof (induction years arbitrary: w)
  case Nil
  show ?case by simp
next
  case (Cons anio rest)
  let ?nombre = "incendioID @ ''_'' @ str_int anio"
  obtain r w1 where call: "try_export_image eng ?nombre aoi
      (fromYMD anio 5 15) (fromYMD anio 6 15) epsg w = (r, w1)"
    by (cases "try_export_image eng ?nombre aoi
      (fromYMD anio 5 15) (fromYMD anio 6 15) epsg w") auto
  from try_export_image_tasks [OF call] obtain ts1 where
    ts1: "tasks w1 = tasks w @ ts1"
      "\<forall>t\<in>set ts1. task_region t = aoi \<and> task_crs t = epsg \<and>
            (\<exists>s e. task_image t = getCloudFreeComposite eng aoi s e)"
    by blast
  define w2 where "w2 = (case r of Inl e \<Rightarrow> py_print (Error_in ?nombre e) w1 | Inr b \<Rightarrow> w1)"
  have next_state: "process_feature_years eng incendioID aoi epsg (anio # rest) w =
      process_feature_years eng incendioID aoi epsg rest w2"
    unfolding process_feature_years_Cons [OF call] w2_def ..
  have w2: "tasks w2 = tasks w1"
    by (cases r) (simp_all add: w2_def)
  from Cons.IH [of w2] obtain ts2 where
    ts2: "tasks (process_feature_years eng incendioID aoi epsg rest w2) = tasks w2 @ ts2"
      "\<forall>t\<in>set ts2. task_region t = aoi \<and> task_crs t = epsg \<and>
            (\<exists>s e. task_image t = getCloudFreeComposite eng aoi s e)"
    by blast
  show ?case
    unfolding next_state
    using ts1 ts2 w2
    by (intro exI [of _ "ts1 @ ts2"]) auto
qed

lemma process_feature_years_rows:
  "\<exists>rs ms. rows (process_feature_years eng incendioID aoi epsg years w) = rows w @ rs \<and>
        console (process_feature_years eng incendioID aoi epsg years w) = console w @ ms \<and>
        length rs + length (filter is_Error_in ms) = length years \<and>
        (\<forall>row\<in>set rs. data_row row \<and>
           (\<forall>p. row ! 1 = Num p \<longrightarrow>
              (\<exists>s e best. get_best_image_by_cloud_cover eng (get_s2_sr_cld_col eng aoi s e) aoi = Some best \<and>
                  p = get_cloud_percentage eng best aoi)))"
proof (induction years arbitrary: w)
  case Nil
  show ?case by simp
next
  case (Cons anio rest)
  let ?nombre = "incendioID @ ''_'' @ str_int anio"
  let ?ok = "\<lambda>row. data_row row \<and>
           (\<forall>p. row ! 1 = Num p \<longrightarrow>
              (\<exists>s e best. get_best_image_by_cloud_cover eng (get_s2_sr_cld_col eng aoi s e) aoi = Some best \<and>
                  p = get_cloud_percentage eng best aoi))"
  obtain r w1 where call: "try_export_image eng ?nombre aoi
      (fromYMD anio 5 15) (fromYMD anio 6 15) epsg w = (r, w1)"
    by (cases "try_export_image eng ?nombre aoi
      (fromYMD anio 5 15) (fromYMD anio 6 15) epsg w") auto
  from try_export_image_rows [OF call] obtain rs1 where
    rs1: "rows w1 = rows w @ rs1" "length rs1 = (case r of Inl e \<Rightarrow> 0 | Inr b \<Rightarrow> 1)"
      "\<forall>row\<in>set rs1. ?ok row"
    by blast
  have "\<exists>ms. console w1 = console w @ ms \<and> (\<forall>m\<in>set ms. \<not> is_Error_in m)"
    using try_export_image_console_no_error
      [of eng ?nombre aoi "fromYMD anio 5 15" "fromYMD anio 6 15" epsg w]
    unfolding call by simp
  then obtain ms1 where ms1: "console w1 = console w @ ms1" "filter is_Error_in ms1 = []"
    by (auto simp: filter_empty_conv)
  define w2 where "w2 = (case r of Inl e \<Rightarrow> py_print (Error_in ?nombre e) w1 | Inr b \<Rightarrow> w1)"
  define extra where "extra = (case r of Inl e \<Rightarrow> [Error_in ?nombre e] | Inr b \<Rightarrow> [])"
  have next_state: "process_feature_years eng incendioID aoi epsg (anio # rest) w =
      process_feature_years eng incendioID aoi epsg rest w2"
    unfolding process_feature_years_Cons [OF call] w2_def ..
  have w2: "rows w2 = rows w1" "console w2 = console w1 @ extra"
    by (cases r; simp add: w2_def extra_def)+
  have count: "length rs1 + length (filter is_Error_in extra) = 1"
    using rs1(2) by (cases r) (simp_all add: extra_def)
  from Cons.IH [of w2] obtain rs2 ms2 where
    rest: "rows (process_feature_years eng incendioID aoi epsg rest w2) = rows w2 @ rs2"
      "console (process_feature_years eng incendioID aoi epsg rest w2) = console w2 @ ms2"
      "length rs2 + length (filter is_Error_in ms2) = length rest"
      "\<forall>row\<in>set rs2. ?ok row"
    by blast
  show ?case
    unfolding next_state
    apply (intro exI [of _ "rs1 @ rs2"] exI [of _ "ms1 @ extra @ ms2"])
    using rs1(1,3) ms1 w2 count rest
    apply auto
    done
qed

subsection \<open>One fire, all fires\<close>

lemma py_int_of_int [simp]: "py_int (real_of_int k) = k"
  by (simp add: py_int_def)

lemma py_int_huso: "py_int (real_of_int k + 1) = k + 1"
proof -
  have "real_of_int k + 1 = real_of_int (k + 1)" by simp
  then show ?thesis by (simp only: py_int_of_int)
qed

lemma process_feature_unfold:
  "process_feature eng incendio w =
     (let aoi = Buffer (Bounds (fire_geometry incendio)) 3000;
          epsg = ''EPSG:258'' @ format_02d (\<lfloor>(fst (centroid eng aoi 1) + 180) / 6\<rfloor> + 1)
      in if fault_at 0 w then (Inl EEException, after_requests 1 w)
         else if fault_at 1 w then (Inl EEException, after_requests 2 w)
         else if fault_at 2 w then
           (Inl EEException, py_print (EPSG_for (fire_id incendio) epsg) (after_requests 3 w))
         else
           (Inr (),
            process_feature_years eng (fire_id incendio) aoi epsg
              (py_range (year (initialdat incendio) + 1) 2024)
              (py_print (EPSG_for (fire_id incendio) epsg) (after_requests 3 w))))"
  by (simp add: process_feature_def Let_def getInfo_eq py_int_huso eval_nat_numeral)

lemma process_feature_features:
  assumes "process_feature eng incendio w = (r, w')"
  shows "incendios_features w' = incendios_features w"
  using assms
  by (auto simp: process_feature_unfold Let_def process_feature_years_features split: if_splits)

lemma process_feature_tasks:
  assumes "process_feature eng incendio w = (r, w')"
  shows "\<exists>ts. tasks w' = tasks w @ ts \<and>
     (\<forall>t\<in>set ts.
        task_region t = Buffer (Bounds (fire_geometry incendio)) 3000 \<and>
        task_crs t = ''EPSG:258'' @
          format_02d (\<lfloor>(fst (centroid eng (Buffer (Bounds (fire_geometry incendio)) 3000) 1) + 180) / 6\<rfloor> + 1) \<and>
        (\<exists>s e. task_image t = getCloudFreeComposite eng (Buffer (Bounds (fire_geometry incendio)) 3000) s e))"
proof -
  let ?aoi = "Buffer (Bounds (fire_geometry incendio)) 3000"
  let ?epsg = "''EPSG:258'' @ format_02d (\<lfloor>(fst (centroid eng ?aoi 1) + 180) / 6\<rfloor> + 1)"
  let ?w3 = "py_print (EPSG_for (fire_id incendio) ?epsg) (after_requests 3 w)"
  have none: "tasks w' = tasks w \<Longrightarrow> ?thesis"
    by (intro exI [of _ "[]"]) simp
  show ?thesis
  proof (cases "fault_at 0 w \<or> fault_at 1 w \<or> fault_at 2 w")
    case True
    with assms have "tasks w' = tasks w"
      by (auto simp: process_feature_unfold Let_def split: if_splits)
    then show ?thesis by (rule none)
  next
    case False
    with assms have w': "w' = process_feature_years eng (fire_id incendio) ?aoi ?epsg
        (py_range (year (initialdat incendio) + 1) 2024) ?w3"
      by (auto simp: process_feature_unfold Let_def)
    from process_feature_years_tasks
      [of eng "fire_id incendio" ?aoi ?epsg "py_range (year (initialdat incendio) + 1) 2024" ?w3]
    show ?thesis unfolding w' by simp
  qed
qed

lemma process_feature_rows:
  assumes "process_feature eng incendio w = (r, w')"
  shows "\<exists>rs. rows w' = rows w @ rs \<and>
     (\<forall>row\<in>set rs. data_row row \<and>
        (\<forall>p. row ! 1 = Num p \<longrightarrow>
           (\<exists>s e best.
               get_best_image_by_cloud_cover eng
                 (get_s2_sr_cld_col eng (Buffer (Bounds (fire_geometry incendio)) 3000) s e)
                 (Buffer (Bounds (fire_geometry incendio)) 3000) = Some best \<and>
               p = get_cloud_percentage eng best (Buffer (Bounds (fire_geometry incendio)) 3000))))"
proof -
  let ?aoi = "Buffer (Bounds (fire_geometry incendio)) 3000"
  let ?epsg = "''EPSG:258'' @ format_02d (\<lfloor>(fst (centroid eng ?aoi 1) + 180) / 6\<rfloor> + 1)"
  let ?w3 = "py_print (EPSG_for (fire_id incendio) ?epsg) (after_requests 3 w)"
  have none: "rows w' = rows w \<Longrightarrow> ?thesis"
    by (intro exI [of _ "[]"]) simp
  show ?thesis
  proof (cases "fault_at 0 w \<or> fault_at 1 w \<or> fault_at 2 w")
    case True
    with assms have "rows w' = rows w"
      by (auto simp: process_feature_unfold Let_def split: if_splits)
    then show ?thesis by (rule none)
  next
    case False
    with assms have w': "w' = process_feature_years eng (fire_id incendio) ?aoi ?epsg
        (py_range (year (initialdat incendio) + 1) 2024) ?w3"
      by (auto simp: process_feature_unfold Let_def)
    from process_feature_years_rows
      [of eng "fire_id incendio" ?aoi ?epsg "py_range (year (initialdat incendio) + 1) 2024" ?w3]
    show ?thesis unfolding w' by auto
  qed
qed

lemma process_features_rows:
  "\<exists>rs. rows (snd (process_features eng fs w)) = rows w @ rs \<and> (\<forall>row\<in>set rs. data_row row)"
proof (induction fs arbitrary: w)
  case Nil
  show ?case by simp
next
  case (Cons ftr rest)
  obtain r w1 where one: "process_feature eng ftr w = (r, w1)"
    by (cases "process_feature eng ftr w") auto
  from process_feature_rows [OF one] obtain rs1 where
    rs1: "rows w1 = rows w @ rs1" "\<forall>row\<in>set rs1. data_row row"
    by blast
  show ?case
  proof (cases r)
    case (Inl e)
    with one rs1 show ?thesis by (intro exI [of _ rs1]) simp
  next
    case (Inr u)
    from Cons.IH [of w1] obtain rs2 where
      rs2: "rows (snd (process_features eng rest w1)) = rows w1 @ rs2" "\<forall>row\<in>set rs2. data_row row"
      by blast
    with Inr one rs1 show ?thesis by (intro exI [of _ "rs1 @ rs2"]) auto
  qed
qed

lemma process_features_features:
  "incendios_features (snd (process_features eng fs w)) = incendios_features w"
proof (induction fs arbitrary: w)
  case Nil
  show ?case by simp
next
  case (Cons ftr rest)
  obtain r w1 where one: "process_feature eng ftr w = (r, w1)"
    by (cases "process_feature eng ftr w") auto
  from process_feature_features [OF one] Cons.IH [of w1] show ?case
    by (cases r) (simp_all add: one)
qed

lemma fault_at_update [simp]:
  "fault_at i (w\<lparr>rows := rs\<rparr>) = fault_at i w"
  "fault_at i (w\<lparr>incendios_features := fs\<rparr>) = fault_at i w"
  by (simp_all add: fault_at_def)

lemma main_rows:
  "\<exists>rs. rows (snd (main eng w)) = header # rs \<and> (\<forall>row\<in>set rs. data_row row)"
proof (cases "fault_at 0 w")
  case True
  then have "rows (snd (main eng w)) = header # []"
    by (simp add: main_def Let_def getInfo_eq)
  then show ?thesis by (intro exI [of _ "[]"]) simp
next
  case False
  let ?w1 = "(after_requests 1 (writerow header (w\<lparr>rows := []\<rparr>)))\<lparr>incendios_features := incendios eng\<rparr>"
  from False have m: "main eng w = process_features eng (incendios eng) ?w1"
    by (simp add: main_def Let_def getInfo_eq)
  have "rows ?w1 = [header]" by simp
  with process_features_rows [of eng "incendios eng" ?w1] show ?thesis
    unfolding m by simp
qed

lemma get_s2_sr_cld_col_intersects:
  "img \<in> set (get_s2_sr_cld_col eng aoi start end') \<Longrightarrow> intersects eng (footprint img) aoi"
  by (auto simp: get_s2_sr_cld_col_def saveFirst_join_def Let_def List.map_filter_def
      s2_image.defs joined_image.defs split: option.splits)

lemma process_feature_years_append:
  "process_feature_years eng incendioID aoi epsg (ys @ zs) w =
   process_feature_years eng incendioID aoi epsg zs (process_feature_years eng incendioID aoi epsg ys w)"
proof (induction ys arbitrary: w)
  case Nil
  show ?case by simp
next
  case (Cons anio rest)
  obtain r w1 where call: "try_export_image eng (incendioID @ ''_'' @ str_int anio) aoi
      (fromYMD anio 5 15) (fromYMD anio 6 15) epsg w = (r, w1)"
    by (cases "try_export_image eng (incendioID @ ''_'' @ str_int anio) aoi
      (fromYMD anio 5 15) (fromYMD anio 6 15) epsg w") auto
  have "process_feature_years eng incendioID aoi epsg ((anio # rest) @ zs) w =
        process_feature_years eng incendioID aoi epsg (anio # (rest @ zs)) w"
    by simp
  also have "\<dots> = process_feature_years eng incendioID aoi epsg (rest @ zs)
      (case r of Inl e \<Rightarrow> py_print (Error_in (incendioID @ ''_'' @ str_int anio) e) w1
               | Inr exported \<Rightarrow> w1)"
    by (rule process_feature_years_Cons [OF call])
  also have "\<dots> = process_feature_years eng incendioID aoi epsg zs
      (process_feature_years eng incendioID aoi epsg rest
         (case r of Inl e \<Rightarrow> py_print (Error_in (incendioID @ ''_'' @ str_int anio) e) w1
                  | Inr exported \<Rightarrow> w1))"
    by (rule Cons.IH)
  also have "process_feature_years eng incendioID aoi epsg rest
         (case r of Inl e \<Rightarrow> py_print (Error_in (incendioID @ ''_'' @ str_int anio) e) w1
                  | Inr exported \<Rightarrow> w1) =
      process_feature_years eng incendioID aoi epsg (anio # rest) w"
    by (rule process_feature_years_Cons [OF call, symmetric])
  finally show ?case .
qed

subsection \<open>The script run on the small archive\<close>

lemma str_int_examples:
  "str_int 2022 = ''2022''" "str_int 2023 = ''2023''" "str_int 2020 = ''2020''"
  by (simp_all add: str_int_def digits_of.simps)

lemma format_02d_30: "format_02d 30 = ''30''"
  by (simp add: format_02d_def digits_of.simps)

lemma example_epsg:
  "''EPSG:258'' @ format_02d (\<lfloor>(fst (centroid example_engine aoi 1) + 180) / 6\<rfloor> + 1) = ''EPSG:25830''"
  by (simp add: example_engine_def format_02d_30)

lemma py_range_examples:
  "py_range (2021 + 1) 2024 = [2022, 2023]" "py_range (2023 + 1) 2024 = []"
  by (simp_all add: py_range_def upto.simps)

lemma example_pct_best:
  "get_cloud_percentage example_engine
     (set_cloudiness example_engine example_aoi (example_joined idx t cpp one_cloud)) example_aoi = 25"
  "get_cloud_percentage example_engine
     (set_cloudiness example_engine example_aoi (example_joined idx t cpp clear_sky)) example_aoi = 0"
  by (simp_all add: get_cloud_percentage_set_cloudiness pct_one_cloud pct_clear_sky)

lemma example_try_2022:
  "try_export_image example_engine ''F1_2022'' example_aoi (fromYMD 2022 5 15) (fromYMD 2022 6 15)
     ''EPSG:25830'' w =
   (if fault_at 0 w then (Inl EEException, after_requests 1 w)
    else if fault_at 1 w then
      (Inr False,
       writerow [Str ''F1_2022'', Str '''', Str ''Cloud error'']
         (py_print (Cloud_percentage_error ''F1_2022'' EEException) (after_requests 2 w)))
    else if fault_at 2 w then
      (Inl EEException, py_print (Clouds_in ''F1_2022'' 0) (after_requests 3 w))
    else
      (Inr True,
       writerow [Str ''F1_2022'', Num 0, Str ''Exported'']
         (py_print (Exporting ''F1_2022'')
            ((py_print (Clouds_in ''F1_2022'' 0) (after_requests 3 w))
               \<lparr>tasks := tasks w @
                  [toDrive
                     (getCloudFreeComposite example_engine example_aoi (fromYMD 2022 5 15) (fromYMD 2022 6 15))
                     ''S2_F1_2022'' (''Incendios_Europa_a'' @ [CHR 0xC3, CHR 0xB1] @ ''os'')
                     ''F1_2022'' example_aoi ''EPSG:25830'' 20 (10 ^ 13)]\<rparr>))))"
  apply (subst try_export_image_unfold)
  apply (simp add: Let_def example_col_2022 example_best_2022 example_pct_best UMBRAL_NUBES_def)
  done

lemma example_try_2023_july:
  "try_export_image example_engine ''F1_2023'' example_aoi (fromYMD 2023 5 15) (fromYMD 2023 7 15)
     ''EPSG:25830'' w =
   (if fault_at 0 w then (Inl EEException, after_requests 1 w)
    else if fault_at 1 w then
      (Inr False,
       writerow [Str ''F1_2023'', Str '''', Str ''Cloud error'']
         (py_print (Cloud_percentage_error ''F1_2023'' EEException) (after_requests 2 w)))
    else if fault_at 2 w then
      (Inl EEException, py_print (Clouds_in ''F1_2023'' 0) (after_requests 3 w))
    else
      (Inr True,
       writerow [Str ''F1_2023'', Num 0, Str ''Exported'']
         (py_print (Exporting ''F1_2023'')
            ((py_print (Clouds_in ''F1_2023'' 0) (after_requests 3 w))
               \<lparr>tasks := tasks w @
                  [toDrive
                     (getCloudFreeComposite example_engine example_aoi (fromYMD 2023 5 15) (fromYMD 2023 7 15))
                     ''S2_F1_2023'' (''Incendios_Europa_a'' @ [CHR 0xC3, CHR 0xB1] @ ''os'')
                     ''F1_2023'' example_aoi ''EPSG:25830'' 20 (10 ^ 13)]\<rparr>))))"
  apply (subst try_export_image_unfold)
  apply (simp add: Let_def example_col_2023_july example_best_2023_july example_pct_best UMBRAL_NUBES_def)
  done

lemma example_try_2023_june:
  "try_export_image example_engine ''F1_2023'' example_aoi (fromYMD 2023 5 15) (fromYMD 2023 6 15)
     ''EPSG:25830'' w =
   (if fault_at 0 w then (Inl EEException, after_requests 1 w)
    else if fault_at 1 w then
      (Inr False,
       writerow [Str ''F1_2023'', Str '''', Str ''Cloud error'']
         (py_print (Cloud_percentage_error ''F1_2023'' EEException) (after_requests 2 w)))
    else if fault_at 2 w then
      (Inl EEException, py_print (Clouds_in ''F1_2023'' 25) (after_requests 3 w))
    else if fault_at 3 w then
      (Inl EEException,
       py_print (Retrying_in_July ''F1_2023'') (py_print (Clouds_in ''F1_2023'' 25) (after_requests 4 w)))
    else
      try_export_image example_engine ''F1_2023'' example_aoi (fromYMD 2023 5 15) (fromYMD 2023 7 15)
        ''EPSG:25830''
        (py_print (Retrying_in_July ''F1_2023'') (py_print (Clouds_in ''F1_2023'' 25) (after_requests 4 w))))"
  apply (subst try_export_image_unfold)
  apply (simp add: Let_def example_col_2023_june example_best_single example_pct_best UMBRAL_NUBES_def)
  done

lemma example_try_2020_july:
  "try_export_image example_engine ''F1_2020'' example_aoi (fromYMD 2020 5 15) (fromYMD 2020 7 15)
     ''EPSG:25830'' (example_world []) =
   (Inr False,
    writerow [Str ''F1_2020'', Num 25, Str ''Discarded'']
      (py_print (Image_discarded ''F1_2020'')
         (py_print (Clouds_in ''F1_2020'' 25) (after_requests 3 (example_world [])))))"
  apply (subst try_export_image_unfold)
  apply (simp add: Let_def example_col_2020_july example_best_single example_pct_best UMBRAL_NUBES_def)
  done

lemma example_try_2019:
  "try_export_image example_engine ''F1_2019'' example_aoi (fromYMD 2019 5 15) (fromYMD 2019 6 15)
     ''EPSG:25830'' (example_world []) =
   (Inr False,
    writerow [Str ''F1_2019'', Str '''', Str ''No images'']
      (py_print (No_images_for ''F1_2019'') (after_requests 1 (example_world []))))"
  apply (subst try_export_image_unfold)
  apply (simp add: Let_def example_col_2019)
  done

lemma fault_at_example_world:
  "fault_at i (example_world fs) = (i < length fs \<and> fs ! i)"
  by (simp add: fault_at_def)

lemma example_engine_fields:
  "centroid example_engine g maxError = (- 3.7, 40.4)"
  "incendios example_engine = [example_fire]"
  by (simp_all add: example_engine_def)

lemma py_range_normal:
  "py_range 2022 2024 = [2022, 2023]" "py_range 2024 2024 = []"
  by (simp_all add: py_range_def upto.simps)

lemma example_process_feature:
  "process_feature example_engine example_fire w =
     (if fault_at 0 w then (Inl EEException, after_requests 1 w)
      else if fault_at 1 w then (Inl EEException, after_requests 2 w)
      else if fault_at 2 w then
        (Inl EEException, py_print (EPSG_for ''F1'' ''EPSG:25830'') (after_requests 3 w))
      else
        (Inr (),
         process_feature_years example_engine ''F1'' example_aoi ''EPSG:25830'' [2022, 2023]
           (py_print (EPSG_for ''F1'' ''EPSG:25830'') (after_requests 3 w))))"
  by (simp add: process_feature_unfold Let_def example_fire_def example_engine_fields format_02d_30
      py_range_normal example_aoi_def del: process_feature_years.simps)

lemmas concrete_world =
  fault_at_def after_requests_def py_print_def writerow_def example_world_def

lemma example_run_rows:
  "rows (snd (main example_engine (example_world []))) =
     [header, [Str ''F1_2022'', Num 0, Str ''Exported''], [Str ''F1_2023'', Num 0, Str ''Exported'']]"
  by (simp add: main_def Let_def getInfo_eq example_process_feature
      example_try_2022 example_try_2023_june example_try_2023_july str_int_examples
      example_engine_fields concrete_world)

lemma example_run_size_fault:
  "rows (snd (main example_engine (example_world [False, False, False, False, True]))) =
     [header, [Str ''F1_2023'', Num 0, Str ''Exported'']] \<and>
   console (snd (main example_engine (example_world [False, False, False, False, True]))) =
     [EPSG_for ''F1'' ''EPSG:25830'', Error_in ''F1_2022'' EEException,
      Clouds_in ''F1_2023'' 25, Retrying_in_July ''F1_2023'', Clouds_in ''F1_2023'' 0,
      Exporting ''F1_2023'']"
  by (simp add: main_def Let_def getInfo_eq example_process_feature
      example_try_2022 example_try_2023_june example_try_2023_july str_int_examples
      example_engine_fields concrete_world)

lemma example_process_feature_run:
  "rows (snd (process_feature example_engine example_fire (example_world []))) =
     [[Str ''F1_2022'', Num 0, Str ''Exported''], [Str ''F1_2023'', Num 0, Str ''Exported'']]"
  "map task_region (tasks (snd (process_feature example_engine example_fire (example_world [])))) =
     [example_aoi, example_aoi]"
  "map task_crs (tasks (snd (process_feature example_engine example_fire (example_world [])))) =
     [''EPSG:25830'', ''EPSG:25830'']"
  "console (snd (process_feature example_engine example_fire (example_world []))) =
     [EPSG_for ''F1'' ''EPSG:25830'', Clouds_in ''F1_2022'' 0, Exporting ''F1_2022'',
      Clouds_in ''F1_2023'' 25, Retrying_in_July ''F1_2023'', Clouds_in ''F1_2023'' 0,
      Exporting ''F1_2023'']"
  by (simp_all add: Let_def example_process_feature
      example_try_2022 example_try_2023_june example_try_2023_july str_int_examples
      concrete_world toDrive_def)

lemma example_run_start_fault:
  "rows (snd (main example_engine
      (example_world [False, False, False, False, False, False, True]))) =
     [header, [Str ''F1_2023'', Num 0, Str ''Exported'']]"
  "console (snd (main example_engine
      (example_world [False, False, False, False, False, False, True]))) =
     [EPSG_for ''F1'' ''EPSG:25830'', Clouds_in ''F1_2022'' 0, Error_in ''F1_2022'' EEException,
      Clouds_in ''F1_2023'' 25, Retrying_in_July ''F1_2023'', Clouds_in ''F1_2023'' 0,
      Exporting ''F1_2023'']"
  "map task_fileNamePrefix (tasks (snd (main example_engine
      (example_world [False, False, False, False, False, False, True])))) = [''F1_2023'']"
  by (simp_all add: main_def Let_def getInfo_eq example_process_feature
      example_try_2022 example_try_2023_june example_try_2023_july str_int_examples
      example_engine_fields concrete_world toDrive_def)

lemma example_run_id_fault:
  "main example_engine_two_fires (example_world [False, True]) =
     (Inl EEException,
      \<lparr>faults = [], rows = [header], tasks = [], console = [],
       incendios_features = [example_fire, fire_of_2023]\<rparr>)"
  by (simp add: main_def Let_def getInfo_eq process_feature_unfold example_engine_two_fires_def
      concrete_world)

lemma example_process_fire_of_2023:
  "process_feature example_engine fire_of_2023 (example_world []) =
     (Inr (), py_print (EPSG_for ''F2'' ''EPSG:25830'') (after_requests 3 (example_world [])))"
  by (simp add: process_feature_unfold Let_def fire_of_2023_def example_engine_fields format_02d_30
      py_range_normal)

subsection \<open>The name of the coordinate reference system\<close>





section \<open>The claims\<close>

subsection \<open>Selection of the best image\<close>

text \<open>
  C1. For every non-empty joined collection and area of interest,
  \<^verbatim>\<open>get_best_image_by_cloud_cover\<close> returns an image of the collection (with its score attached
  as the property \<^verbatim>\<open>CLOUDY_PERCENT_AOI\<close>) whose cloud percentage inside the area is the lowest
  of the collection. The percentage of an image is 100 times the area of the pixels whose
  cloud probability is strictly above 30, counted where band B8 is valid, divided by the
  area of the pixels where B8 is valid. The collection that \<^verbatim>\<open>get_s2_sr_cld_col\<close> builds holds
  only images whose \<^verbatim>\<open>CLOUDY_PIXEL_PERCENTAGE\<close> is at most 50.
\<close>

theorem best_image_has_lowest_cloud_percentage:
  "(col \<noteq> [] \<longrightarrow>
      (\<exists>x\<in>set col.
          get_best_image_by_cloud_cover eng col aoi =
            Some (joined_image.extend x (scored_image.fields (get_cloud_percentage eng x aoi))) \<and>
          (\<forall>y\<in>set col. get_cloud_percentage eng x aoi \<le> get_cloud_percentage eng y aoi))) \<and>
   get_cloud_percentage eng (img :: joined_image) aoi =
     (let cloud_area = (\<Sum>(p, frac) \<leftarrow> region_pixels eng aoi 10.
            (if fst (probability (s2cloudless img) p) > 30 then 1 else 0) *
            min (if snd (probability (s2cloudless img) p) = 0 then 0
                 else if snd (B8 img p) > 0 then 1 else 0) frac);
          valid_area = (\<Sum>(p, frac) \<leftarrow> region_pixels eng aoi 10.
            min (if snd (B8 img p) > 0 then 1 else 0) frac)
      in (if valid_area = 0 then 0 else cloud_area / valid_area) * 100) \<and>
   (\<forall>i\<in>set (get_s2_sr_cld_col eng aoi' start end'). CLOUDY_PIXEL_PERCENTAGE i \<le> 50)"
proof (intro conjI impI ballI)
  assume "col \<noteq> []"
  from get_best_Some [OF this, of eng aoi]
  show "\<exists>x\<in>set col.
          get_best_image_by_cloud_cover eng col aoi =
            Some (joined_image.extend x (scored_image.fields (get_cloud_percentage eng x aoi))) \<and>
          (\<forall>y\<in>set col. get_cloud_percentage eng x aoi \<le> get_cloud_percentage eng y aoi)"
    by (simp add: set_cloudiness_extend)
next
  show "get_cloud_percentage eng img aoi =
     (let cloud_area = (\<Sum>(p, frac) \<leftarrow> region_pixels eng aoi 10.
            (if fst (probability (s2cloudless img) p) > 30 then 1 else 0) *
            min (if snd (probability (s2cloudless img) p) = 0 then 0
                 else if snd (B8 img p) > 0 then 1 else 0) frac);
          valid_area = (\<Sum>(p, frac) \<leftarrow> region_pixels eng aoi 10.
            min (if snd (B8 img p) > 0 then 1 else 0) frac)
      in (if valid_area = 0 then 0 else cloud_area / valid_area) * 100)"
    by (rule get_cloud_percentage_formula)
next
  fix i assume "i \<in> set (get_s2_sr_cld_col eng aoi' start end')"
  then show "CLOUDY_PIXEL_PERCENTAGE i \<le> 50"
    by (rule cloudy_pixel_percentage_filter)
qed

text \<open>
  On the small archive, for the window of 2022: the collection holds A and B (E is left out
  by its metadata), and the best image is one of them with the lowest score.
\<close>

theorem best_image_has_lowest_cloud_percentage_witness:
  "get_s2_sr_cld_col example_engine example_aoi (fromYMD 2022 5 15) (fromYMD 2022 6 15) \<noteq> [] \<and>
   (\<exists>x\<in>set (get_s2_sr_cld_col example_engine example_aoi (fromYMD 2022 5 15) (fromYMD 2022 6 15)).
       get_best_image_by_cloud_cover example_engine
         (get_s2_sr_cld_col example_engine example_aoi (fromYMD 2022 5 15) (fromYMD 2022 6 15))
         example_aoi =
         Some (joined_image.extend x
                 (scored_image.fields (get_cloud_percentage example_engine x example_aoi))) \<and>
       (\<forall>y\<in>set (get_s2_sr_cld_col example_engine example_aoi (fromYMD 2022 5 15) (fromYMD 2022 6 15)).
           get_cloud_percentage example_engine x example_aoi
             \<le> get_cloud_percentage example_engine y example_aoi)) \<and>
   get_best_image_by_cloud_cover example_engine
     (get_s2_sr_cld_col example_engine example_aoi (fromYMD 2022 5 15) (fromYMD 2022 6 15))
     example_aoi =
     Some (joined_image.extend (example_joined ''B'' (fromYMD 2022 6 1) 10 clear_sky)
             (scored_image.fields 0))"
proof -
  let ?col = "get_s2_sr_cld_col example_engine example_aoi (fromYMD 2022 5 15) (fromYMD 2022 6 15)"
  have ne: "?col \<noteq> []"
    by (simp add: example_col_2022)
  have best: "get_best_image_by_cloud_cover example_engine ?col example_aoi =
     Some (joined_image.extend (example_joined ''B'' (fromYMD 2022 6 1) 10 clear_sky)
             (scored_image.fields 0))"
    by (simp add: example_col_2022 example_best_2022 set_cloudiness_extend pct_clear_sky)
  from best_image_has_lowest_cloud_percentage [of ?col example_engine example_aoi] ne best
  show ?thesis by blast
qed

text \<open>
  C9. The percentage that \<^verbatim>\<open>get_cloud_percentage\<close> computes for an image is the value that
  \<^verbatim>\<open>set_cloudiness\<close> stores as \<^verbatim>\<open>CLOUDY_PERCENT_AOI\<close>, also when it is computed from the
  image that already carries the score; so for the image that
  \<^verbatim>\<open>get_best_image_by_cloud_cover\<close> returns, the percentage compared with the tolerance is
  the score it was ranked by.
\<close>

theorem cloud_percentage_is_the_ranking_score:
  "CLOUDY_PERCENT_AOI (set_cloudiness eng aoi img) = get_cloud_percentage eng img aoi \<and>
   get_cloud_percentage eng (set_cloudiness eng aoi img) aoi = get_cloud_percentage eng img aoi \<and>
   (get_best_image_by_cloud_cover eng col aoi = Some best \<longrightarrow>
      get_cloud_percentage eng best aoi = CLOUDY_PERCENT_AOI best)"
proof (intro conjI impI)
  show "CLOUDY_PERCENT_AOI (set_cloudiness eng aoi img) = get_cloud_percentage eng img aoi"
    by (rule set_cloudiness_score)
  show "get_cloud_percentage eng (set_cloudiness eng aoi img) aoi = get_cloud_percentage eng img aoi"
    by (rule get_cloud_percentage_set_cloudiness)
next
  assume "get_best_image_by_cloud_cover eng col aoi = Some best"
  from get_best_is_scored [OF this] obtain x where "best = set_cloudiness eng aoi x"
    by blast
  then show "get_cloud_percentage eng best aoi = CLOUDY_PERCENT_AOI best"
    by (simp add: set_cloudiness_score get_cloud_percentage_set_cloudiness)
qed

theorem cloud_percentage_is_the_ranking_score_witness:
  "get_best_image_by_cloud_cover example_engine
     [example_joined ''A'' (fromYMD 2022 5 20) 20 one_cloud,
      example_joined ''B'' (fromYMD 2022 6 1) 10 clear_sky] example_aoi =
     Some (set_cloudiness example_engine example_aoi (example_joined ''B'' (fromYMD 2022 6 1) 10 clear_sky)) \<and>
   get_cloud_percentage example_engine
     (set_cloudiness example_engine example_aoi (example_joined ''B'' (fromYMD 2022 6 1) 10 clear_sky))
     example_aoi =
     CLOUDY_PERCENT_AOI
       (set_cloudiness example_engine example_aoi (example_joined ''B'' (fromYMD 2022 6 1) 10 clear_sky)) \<and>
   CLOUDY_PERCENT_AOI
     (set_cloudiness example_engine example_aoi (example_joined ''B'' (fromYMD 2022 6 1) 10 clear_sky)) = 0"
  using cloud_percentage_is_the_ranking_score
    [of example_engine example_aoi "example_joined ''B'' (fromYMD 2022 6 1) 10 clear_sky"
        "[example_joined ''A'' (fromYMD 2022 5 20) 20 one_cloud,
          example_joined ''B'' (fromYMD 2022 6 1) 10 clear_sky]"
        "set_cloudiness example_engine example_aoi (example_joined ''B'' (fromYMD 2022 6 1) 10 clear_sky)"]
    example_best_2022
  by (simp add: pct_clear_sky set_cloudiness_score get_cloud_percentage_set_cloudiness)

subsection \<open>Termination\<close>

text \<open>
  C7. \<^verbatim>\<open>try_export_image\<close> terminates on every input and recurses at most once.
  \<open>try_export_image_dom\<close> is the set of arguments on which the recursion ends, and
  \<open>try_export_image_rel callee caller\<close> holds exactly when the call \<open>caller\<close> reaches the
  recursive call \<open>callee\<close>; both are generated from the definition of the function. Every
  call ends; a call that recurses has its window end in June and recurses with the end
  July 15 of the same year, whose month is 7, and that call makes no further call. In what
  is printed, the retry message appears at most once per call.
\<close>

theorem try_export_image_recurses_at_most_once:
  "try_export_image_dom (eng, nombre, aoi, start, end', epsg, w) \<and>
   (try_export_image_rel (eng_c, nombre_c, aoi_c, start_c, end_c, epsg_c, w_c)
        (eng, nombre, aoi, start, end', epsg, w) \<longrightarrow>
      month end' = 6 \<and> end_c = fromYMD (year end') 7 15 \<and> month end_c = 7 \<and> start_c = start \<and>
      (\<forall>call. \<not> try_export_image_rel call (eng_c, nombre_c, aoi_c, start_c, end_c, epsg_c, w_c))) \<and>
   (\<exists>ms. console (snd (try_export_image eng nombre aoi start end' epsg w)) = console w @ ms \<and>
         length (filter (\<lambda>m. m = Retrying_in_July nombre) ms) \<le> 1)"
proof -
  have ends: "try_export_image_dom (eng, nombre, aoi, start, end', epsg, w)"
    by (rule try_export_image_dom_all)
  have once: "month end' = 6 \<and> end_c = fromYMD (year end') 7 15 \<and> month end_c = 7 \<and> start_c = start \<and>
      (\<forall>call. \<not> try_export_image_rel call (eng_c, nombre_c, aoi_c, start_c, end_c, epsg_c, w_c))"
    if rel: "try_export_image_rel (eng_c, nombre_c, aoi_c, start_c, end_c, epsg_c, w_c)
                 (eng, nombre, aoi, start, end', epsg, w)"
  proof -
    from try_export_image_rel_callee [OF rel]
    have callee: "month end' = 6" "end_c = fromYMD (year end') 7 15" "start_c = start"
      by simp_all
    then have july: "month end_c = 7" by simp
    have last: "\<not> try_export_image_rel call (eng_c, nombre_c, aoi_c, start_c, end_c, epsg_c, w_c)" for call
    proof
      assume again: "try_export_image_rel call (eng_c, nombre_c, aoi_c, start_c, end_c, epsg_c, w_c)"
      obtain e3 n3 a3 s3 d3 p3 w3 where call: "call = (e3, n3, a3, s3, d3, p3, w3)"
        by (cases call) auto
      from try_export_image_rel_callee [OF again [unfolded call]] have "month end_c = 6"
        by simp
      with july show False by simp
    qed
    from callee july last show ?thesis by blast
  qed
  have printed: "\<exists>ms. console (snd (try_export_image eng nombre aoi start end' epsg w)) = console w @ ms \<and>
         length (filter (\<lambda>m. m = Retrying_in_July nombre) ms) \<le> 1"
    by (rule try_export_image_console_retry_once)
  from ends once printed show ?thesis by blast
qed

text \<open>
  On the small archive the window of 2023 holds only image C (25 per cent), so the call
  for June 2023 recurses, with the window end July 15, 2023; that call makes no call.
\<close>

theorem try_export_image_recurses_at_most_once_witness:
  "try_export_image_rel
     (example_engine, ''F1_2023'', example_aoi, fromYMD 2023 5 15, fromYMD 2023 7 15, ''EPSG:25830'',
      py_print (Retrying_in_July ''F1_2023'')
        (py_print (Clouds_in ''F1_2023'' 25) (after_requests 4 (example_world []))))
     (example_engine, ''F1_2023'', example_aoi, fromYMD 2023 5 15, fromYMD 2023 6 15, ''EPSG:25830'',
      example_world []) \<and>
   month (fromYMD 2023 6 15) = 6 \<and>
   month (fromYMD 2023 7 15) = 7 \<and>
   (\<forall>call. \<not> try_export_image_rel call
      (example_engine, ''F1_2023'', example_aoi, fromYMD 2023 5 15, fromYMD 2023 7 15, ''EPSG:25830'',
       py_print (Retrying_in_July ''F1_2023'')
         (py_print (Clouds_in ''F1_2023'' 25) (after_requests 4 (example_world [])))))"
proof -
  let ?C = "example_joined ''C'' (fromYMD 2023 5 20) 40 one_cloud"
  have best: "get_best_image_by_cloud_cover example_engine
      (get_s2_sr_cld_col example_engine example_aoi (fromYMD 2023 5 15) (fromYMD 2023 6 15)) example_aoi =
      Some (set_cloudiness example_engine example_aoi ?C)"
    by (simp add: example_col_2023_june example_best_single)
  have pct: "get_cloud_percentage example_engine (set_cloudiness example_engine example_aoi ?C) example_aoi = 25"
    by (simp add: get_cloud_percentage_set_cloudiness pct_one_cloud)
  have rel: "try_export_image_rel
     (example_engine, ''F1_2023'', example_aoi, fromYMD 2023 5 15, fromYMD 2023 7 15, ''EPSG:25830'',
      py_print (Retrying_in_July ''F1_2023'')
        (py_print (Clouds_in ''F1_2023'' 25) (after_requests 4 (example_world []))))
     (example_engine, ''F1_2023'', example_aoi, fromYMD 2023 5 15, fromYMD 2023 6 15, ''EPSG:25830'',
      example_world [])"
    using try_export_image_rel_retry_normal
      [where w = "example_world []" and eng = example_engine and aoi = example_aoi
         and start = "fromYMD 2023 5 15" and end' = "fromYMD 2023 6 15"
         and best = "set_cloudiness example_engine example_aoi ?C"
         and nombre = "''F1_2023''" and epsg = "''EPSG:25830''"]
      best
    by (simp add: pct UMBRAL_NUBES_def)
  from try_export_image_recurses_at_most_once
    [where eng = example_engine and nombre = "''F1_2023''" and aoi = example_aoi
       and start = "fromYMD 2023 5 15" and end' = "fromYMD 2023 6 15" and epsg = "''EPSG:25830''"
       and w = "example_world []"
       and eng_c = example_engine and nombre_c = "''F1_2023''" and aoi_c = example_aoi
       and start_c = "fromYMD 2023 5 15" and end_c = "fromYMD 2023 7 15" and epsg_c = "''EPSG:25830''"
       and w_c = "py_print (Retrying_in_July ''F1_2023'')
           (py_print (Clouds_in ''F1_2023'' 25) (after_requests 4 (example_world [])))"]
    rel
  show ?thesis by simp
qed

subsection \<open>The decision taken from the cloud percentage\<close>

text \<open>
  C2. When the best image of the window has a cloud percentage above the tolerance (15):
  if the window ends in June, the same selection is run again with the same start and the
  end July 15 of the same year (after the messages of lines 165 and 170); if the window
  does not end in June, the row \<^verbatim>\<open>[nombre, percentage, 'Discarded']\<close> is written and the
  function returns \<^verbatim>\<open>False\<close>. The requests the call makes on the way (four, respectively
  three) are taken to succeed.
\<close>

theorem too_cloudy_retries_in_july_or_discards:
  assumes best: "get_best_image_by_cloud_cover eng (get_s2_sr_cld_col eng aoi start end') aoi = Some best"
    and cloudy: "get_cloud_percentage eng best aoi > 15"
  shows
   "(month end' = 6 \<and> requests_succeed 4 w \<longrightarrow>
       try_export_image eng nombre aoi start end' epsg w =
       try_export_image eng nombre aoi start (fromYMD (year end') 7 15) epsg
         (py_print (Retrying_in_July nombre)
            (py_print (Clouds_in nombre (get_cloud_percentage eng best aoi)) (after_requests 4 w)))) \<and>
    (month end' \<noteq> 6 \<and> requests_succeed 3 w \<longrightarrow>
       try_export_image eng nombre aoi start end' epsg w =
         (Inr False,
          writerow [Str nombre, Num (get_cloud_percentage eng best aoi), Str ''Discarded'']
            (py_print (Image_discarded nombre)
               (py_print (Clouds_in nombre (get_cloud_percentage eng best aoi))
                  (after_requests 3 w)))))"
proof -
  from best have ne: "get_s2_sr_cld_col eng aoi start end' \<noteq> []"
    by (auto simp: get_best_None)
  have retry: "try_export_image eng nombre aoi start end' epsg w =
       try_export_image eng nombre aoi start (fromYMD (year end') 7 15) epsg
         (py_print (Retrying_in_July nombre)
            (py_print (Clouds_in nombre (get_cloud_percentage eng best aoi)) (after_requests 4 w)))"
    if june: "month end' = 6" and ok: "requests_succeed 4 w"
    apply (subst try_export_image_unfold)
    using best cloudy ne june requests_succeed_4 [OF ok]
    apply (simp add: Let_def UMBRAL_NUBES_def)
    done
  have discard: "try_export_image eng nombre aoi start end' epsg w =
         (Inr False,
          writerow [Str nombre, Num (get_cloud_percentage eng best aoi), Str ''Discarded'']
            (py_print (Image_discarded nombre)
               (py_print (Clouds_in nombre (get_cloud_percentage eng best aoi))
                  (after_requests 3 w))))"
    if other: "month end' \<noteq> 6" and ok: "requests_succeed 3 w"
    apply (subst try_export_image_unfold)
    using best cloudy ne other requests_succeed_3 [OF ok]
    apply (simp add: Let_def UMBRAL_NUBES_def)
    done
  from retry discard show ?thesis by blast
qed

text \<open>
  On the small archive: the window of June 2023 holds only image C (25 per cent), and the
  call continues as the call for July 15, 2023; the window of 2020 that ends on July 15
  holds only image G (25 per cent), and the call writes \<^verbatim>\<open>Discarded\<close>.
\<close>

theorem too_cloudy_retries_in_july_or_discards_witness:
  "try_export_image example_engine ''F1_2023'' example_aoi (fromYMD 2023 5 15) (fromYMD 2023 6 15)
     ''EPSG:25830'' (example_world []) =
   try_export_image example_engine ''F1_2023'' example_aoi (fromYMD 2023 5 15) (fromYMD 2023 7 15)
     ''EPSG:25830''
     (py_print (Retrying_in_July ''F1_2023'')
        (py_print (Clouds_in ''F1_2023'' 25) (after_requests 4 (example_world [])))) \<and>
   try_export_image example_engine ''F1_2020'' example_aoi (fromYMD 2020 5 15) (fromYMD 2020 7 15)
     ''EPSG:25830'' (example_world []) =
   (Inr False,
    writerow [Str ''F1_2020'', Num 25, Str ''Discarded'']
      (py_print (Image_discarded ''F1_2020'')
         (py_print (Clouds_in ''F1_2020'' 25) (after_requests 3 (example_world [])))))"
proof -
  let ?C = "set_cloudiness example_engine example_aoi (example_joined ''C'' (fromYMD 2023 5 20) 40 one_cloud)"
  let ?G = "set_cloudiness example_engine example_aoi (example_joined ''G'' (fromYMD 2020 5 20) 30 one_cloud)"
  have ok: "requests_succeed 4 (example_world [])" "requests_succeed 3 (example_world [])"
    by (simp_all add: requests_succeed_def)
  have best_C: "get_best_image_by_cloud_cover example_engine
      (get_s2_sr_cld_col example_engine example_aoi (fromYMD 2023 5 15) (fromYMD 2023 6 15)) example_aoi =
      Some ?C"
    by (simp add: example_col_2023_june example_best_single)
  have best_G: "get_best_image_by_cloud_cover example_engine
      (get_s2_sr_cld_col example_engine example_aoi (fromYMD 2020 5 15) (fromYMD 2020 7 15)) example_aoi =
      Some ?G"
    by (simp add: example_col_2020_july example_best_single)
  have pct: "get_cloud_percentage example_engine ?C example_aoi = 25"
    "get_cloud_percentage example_engine ?G example_aoi = 25"
    by (simp_all add: example_pct_best)
  have cloudy: "get_cloud_percentage example_engine ?C example_aoi > 15"
    "get_cloud_percentage example_engine ?G example_aoi > 15"
    by (simp_all add: pct)
  from too_cloudy_retries_in_july_or_discards
    [OF best_C cloudy(1), where w = "example_world []" and nombre = "''F1_2023''" and epsg = "''EPSG:25830''"]
    too_cloudy_retries_in_july_or_discards
    [OF best_G cloudy(2), where w = "example_world []" and nombre = "''F1_2020''" and epsg = "''EPSG:25830''"]
    ok
  show ?thesis by (simp add: pct)
qed



text \<open>
  C10. \<^verbatim>\<open>try_export_image\<close> returns \<^verbatim>\<open>True\<close> exactly when it has started one export job and
  written a row with the status \<^verbatim>\<open>Exported\<close>. It returns \<^verbatim>\<open>False\<close> exactly when it has started
  no job and written one row whose status is \<^verbatim>\<open>No images\<close>, \<^verbatim>\<open>Cloud error\<close> or \<^verbatim>\<open>Discarded\<close>,
  the first two with an empty cloud percentage. (When it raises, it has started no job and
  written no row.)
\<close>

theorem try_export_image_true_iff_exported:
  assumes call: "try_export_image eng nombre aoi start end' epsg w = (r, w')"
  shows
   "(r = Inr True \<longleftrightarrow>
       (\<exists>t p. tasks w' = tasks w @ [t] \<and> rows w' = rows w @ [[Str nombre, Num p, Str ''Exported'']])) \<and>
    (r = Inr False \<longleftrightarrow>
       tasks w' = tasks w \<and>
       (\<exists>c status. rows w' = rows w @ [[Str nombre, c, Str status]] \<and>
          (status = ''No images'' \<and> c = Str '''' \<or>
           status = ''Cloud error'' \<and> c = Str '''' \<or>
           status = ''Discarded''))) \<and>
    ((\<exists>e. r = Inl e) \<longleftrightarrow> tasks w' = tasks w \<and> rows w' = rows w)"
proof -
  note outcome = try_export_image_outcome [OF call]
  have exported: "\<exists>t p. tasks w' = tasks w @ [t] \<and> rows w' = rows w @ [[Str nombre, Num p, Str ''Exported'']]"
    if "r = Inr True"
    using outcome that by auto
  have refused: "tasks w' = tasks w \<and>
       (\<exists>c status. rows w' = rows w @ [[Str nombre, c, Str status]] \<and>
          (status = ''No images'' \<and> c = Str '''' \<or>
           status = ''Cloud error'' \<and> c = Str '''' \<or>
           status = ''Discarded''))"
    if "r = Inr False"
    using outcome that by auto
  have raised: "tasks w' = tasks w \<and> rows w' = rows w" if "r = Inl e" for e
    using outcome that by simp
  have grown: "tasks w' \<noteq> tasks w" if "tasks w' = tasks w @ [t]" for t
    using that by simp
  have written: "rows w' \<noteq> rows w" if "rows w' = rows w @ [row]" for row
    using that by simp
  show ?thesis
  proof (cases r)
    case (Inl e)
    from raised [OF Inl] written Inl show ?thesis by auto
  next
    case (Inr b)
    show ?thesis
    proof (cases b)
      case True
      with Inr have r: "r = Inr True" by simp
      from exported [OF r] obtain t p where
        effect: "tasks w' = tasks w @ [t]" "rows w' = rows w @ [[Str nombre, Num p, Str ''Exported'']]"
        by blast
      from effect grown [OF effect(1)] written [OF effect(2)] r show ?thesis by auto
    next
      case False
      with Inr have r: "r = Inr False" by simp
      from refused [OF r] obtain c status where
        effect: "tasks w' = tasks w" "rows w' = rows w @ [[Str nombre, c, Str status]]"
          "status = ''No images'' \<and> c = Str '''' \<or> status = ''Cloud error'' \<and> c = Str '''' \<or>
           status = ''Discarded''"
        by blast
      from effect written [OF effect(2)] r show ?thesis by auto
    qed
  qed
qed

text \<open>
  On the small archive: the call for 2022 returns \<^verbatim>\<open>True\<close> with one job and the row
  \<^verbatim>\<open>Exported\<close>; the call for an empty window returns \<^verbatim>\<open>False\<close> with no job and the row
  \<^verbatim>\<open>No images\<close>.
\<close>

theorem try_export_image_true_iff_exported_witness:
  "fst (try_export_image example_engine ''F1_2022'' example_aoi (fromYMD 2022 5 15) (fromYMD 2022 6 15)
          ''EPSG:25830'' (example_world [])) = Inr True \<and>
   (\<exists>t p.
       tasks (snd (try_export_image example_engine ''F1_2022'' example_aoi (fromYMD 2022 5 15)
                     (fromYMD 2022 6 15) ''EPSG:25830'' (example_world []))) =
         tasks (example_world []) @ [t] \<and>
       rows (snd (try_export_image example_engine ''F1_2022'' example_aoi (fromYMD 2022 5 15)
                    (fromYMD 2022 6 15) ''EPSG:25830'' (example_world []))) =
         rows (example_world []) @ [[Str ''F1_2022'', Num p, Str ''Exported'']]) \<and>
   fst (try_export_image example_engine ''F1_2019'' example_aoi (fromYMD 2019 5 15) (fromYMD 2019 6 15)
          ''EPSG:25830'' (example_world [])) = Inr False \<and>
   tasks (snd (try_export_image example_engine ''F1_2019'' example_aoi (fromYMD 2019 5 15)
                 (fromYMD 2019 6 15) ''EPSG:25830'' (example_world []))) = tasks (example_world [])"
proof -
  let ?call_2022 = "try_export_image example_engine ''F1_2022'' example_aoi (fromYMD 2022 5 15)
      (fromYMD 2022 6 15) ''EPSG:25830'' (example_world [])"
  let ?call_2019 = "try_export_image example_engine ''F1_2019'' example_aoi (fromYMD 2019 5 15)
      (fromYMD 2019 6 15) ''EPSG:25830'' (example_world [])"
  have true: "fst ?call_2022 = Inr True"
    by (simp add: example_try_2022)
  have false: "fst ?call_2019 = Inr False"
    by (simp add: example_try_2019)
  have "?call_2022 = (fst ?call_2022, snd ?call_2022)" "?call_2019 = (fst ?call_2019, snd ?call_2019)"
    by simp_all
  from try_export_image_true_iff_exported [OF this(1)] try_export_image_true_iff_exported [OF this(2)]
    true false
  show ?thesis by simp
qed

subsection \<open>The area of interest, the years, the output file, the errors\<close>

text \<open>
  C8. For every fire, the area of interest is the bounding box of the fire's geometry,
  buffered by 3000: it is the region of every export job that \<^verbatim>\<open>process_feature\<close> starts and
  the region to which the exported composite is clipped; every cloud percentage that
  \<^verbatim>\<open>process_feature\<close> writes is the percentage, inside that area, of the best image of a
  collection filtered by that area; and the images of such a collection intersect the
  area. The list of fires that the script holds is not changed by \<^verbatim>\<open>process_feature\<close>, nor
  by the loop over the fires, and \<^verbatim>\<open>main\<close> leaves in it the fires it has fetched.
\<close>

theorem area_of_interest_is_buffered_bounds:
  "(\<exists>ts rs.
      tasks (snd (process_feature eng incendio w)) = tasks w @ ts \<and>
      rows (snd (process_feature eng incendio w)) = rows w @ rs \<and>
      (\<forall>t\<in>set ts.
          task_region t = Buffer (Bounds (fire_geometry incendio)) 3000 \<and>
          (\<exists>s e. task_image t =
             Median_clip
               (map (\<lambda>img. apply_cld_shdw_mask (add_cld_shdw_mask \<lparr>source = img, added = []\<rparr>))
                  (get_s2_sr_cld_col eng (Buffer (Bounds (fire_geometry incendio)) 3000) s e))
               (Buffer (Bounds (fire_geometry incendio)) 3000))) \<and>
      (\<forall>row\<in>set rs. \<forall>p. row ! 1 = Num p \<longrightarrow>
          (\<exists>s e best.
              get_best_image_by_cloud_cover eng
                (get_s2_sr_cld_col eng (Buffer (Bounds (fire_geometry incendio)) 3000) s e)
                (Buffer (Bounds (fire_geometry incendio)) 3000) = Some best \<and>
              p = get_cloud_percentage eng best (Buffer (Bounds (fire_geometry incendio)) 3000)))) \<and>
   (\<forall>img\<in>set (get_s2_sr_cld_col eng aoi start end'). intersects eng (footprint img) aoi) \<and>
   incendios_features (snd (process_feature eng incendio w)) = incendios_features w \<and>
   incendios_features (snd (process_features eng fs w)) = incendios_features w \<and>
   (\<not> fault_at 0 w \<longrightarrow> incendios_features (snd (main eng w)) = incendios eng)"
proof -
  let ?aoi = "Buffer (Bounds (fire_geometry incendio)) 3000"
  obtain r w' where run: "process_feature eng incendio w = (r, w')"
    by (cases "process_feature eng incendio w") auto
  from process_feature_tasks [OF run] obtain ts where
    ts: "tasks w' = tasks w @ ts"
      "\<forall>t\<in>set ts. task_region t = ?aoi \<and> (\<exists>s e. task_image t = getCloudFreeComposite eng ?aoi s e)"
    by blast
  from process_feature_rows [OF run] obtain rs where
    rs: "rows w' = rows w @ rs"
      "\<forall>row\<in>set rs. \<forall>p. row ! 1 = Num p \<longrightarrow>
          (\<exists>s e best. get_best_image_by_cloud_cover eng (get_s2_sr_cld_col eng ?aoi s e) ?aoi = Some best \<and>
              p = get_cloud_percentage eng best ?aoi)"
    by blast
  have used: "\<exists>ts rs.
      tasks (snd (process_feature eng incendio w)) = tasks w @ ts \<and>
      rows (snd (process_feature eng incendio w)) = rows w @ rs \<and>
      (\<forall>t\<in>set ts.
          task_region t = ?aoi \<and>
          (\<exists>s e. task_image t =
             Median_clip
               (map (\<lambda>img. apply_cld_shdw_mask (add_cld_shdw_mask \<lparr>source = img, added = []\<rparr>))
                  (get_s2_sr_cld_col eng ?aoi s e))
               ?aoi)) \<and>
      (\<forall>row\<in>set rs. \<forall>p. row ! 1 = Num p \<longrightarrow>
          (\<exists>s e best. get_best_image_by_cloud_cover eng (get_s2_sr_cld_col eng ?aoi s e) ?aoi = Some best \<and>
              p = get_cloud_percentage eng best ?aoi))"
    unfolding run
    using ts rs
    by (intro exI [of _ ts] exI [of _ rs]) (simp add: getCloudFreeComposite_eq)
  have filtered: "\<forall>img\<in>set (get_s2_sr_cld_col eng aoi start end'). intersects eng (footprint img) aoi"
    by (simp add: get_s2_sr_cld_col_intersects)
  have one: "incendios_features (snd (process_feature eng incendio w)) = incendios_features w"
    using process_feature_features [OF run] by (simp add: run)
  have all: "incendios_features (snd (process_features eng fs w)) = incendios_features w"
    by (rule process_features_features)
  have fetched: "incendios_features (snd (main eng w)) = incendios eng" if "\<not> fault_at 0 w"
    using that by (simp add: main_def Let_def getInfo_eq process_features_features)
  from used filtered one all fetched show ?thesis by blast
qed

text \<open>
  On the small archive: the two jobs of the fire have the region
  \<open>Buffer (Bounds (Polygon 0)) 3000\<close>, and after the run the script holds the one fire of
  the collection, unchanged.
\<close>

theorem area_of_interest_is_buffered_bounds_witness:
  "fire_geometry example_fire = Polygon 0 \<and>
   map task_region (tasks (snd (process_feature example_engine example_fire (example_world [])))) =
     [Buffer (Bounds (Polygon 0)) 3000, Buffer (Bounds (Polygon 0)) 3000] \<and>
   \<not> fault_at 0 (example_world []) \<and>
   incendios_features (snd (main example_engine (example_world []))) = [example_fire] \<and>
   (\<exists>ts. tasks (snd (process_feature example_engine example_fire (example_world []))) =
            tasks (example_world []) @ ts \<and>
         (\<forall>t\<in>set ts. task_region t = Buffer (Bounds (Polygon 0)) 3000))"
proof -
  have geometry: "fire_geometry example_fire = Polygon 0"
    by (simp add: example_fire_def)
  have no_fault: "\<not> fault_at 0 (example_world [])"
    by simp
  from area_of_interest_is_buffered_bounds
    [where eng = example_engine and incendio = example_fire and w = "example_world []"]
    no_fault
  have fetched: "incendios_features (snd (main example_engine (example_world []))) = incendios example_engine"
    and regions: "\<exists>ts. tasks (snd (process_feature example_engine example_fire (example_world []))) =
            tasks (example_world []) @ ts \<and>
         (\<forall>t\<in>set ts. task_region t = Buffer (Bounds (fire_geometry example_fire)) 3000)"
    by blast+
  from geometry no_fault fetched regions show ?thesis
    by (simp add: example_process_feature_run example_aoi_def example_engine_fields)
qed

text \<open>
  C4, as the code has it. The output file begins with the header row
  \<^verbatim>\<open>Name, % Clouds, Status\<close>, and every later row is a name, a cloud percentage and a status
  among \<^verbatim>\<open>Exported\<close>, \<^verbatim>\<open>Discarded\<close>, \<^verbatim>\<open>No images\<close> and \<^verbatim>\<open>Cloud error\<close>. One attempt adds at most one
  row: one when \<^verbatim>\<open>try_export_image\<close> returns, none when it raises. So the rows that the years
  of a fire add, together with the messages of line 226 (one for each attempt that
  raised), are as many as the years.
\<close>

theorem output_file_rows:
  "(\<exists>rs. rows (snd (main eng w)) = [Str ''Name'', Str ''% Clouds'', Str ''Status''] # rs \<and>
         (\<forall>row\<in>set rs. data_row row)) \<and>
   (\<exists>rs ms.
       rows (process_feature_years eng incendioID aoi epsg years w) = rows w @ rs \<and>
       console (process_feature_years eng incendioID aoi epsg years w) = console w @ ms \<and>
       length rs + length (filter is_Error_in ms) = length years) \<and>
   (\<exists>rs. rows (snd (try_export_image eng nombre aoi start end' epsg w)) = rows w @ rs \<and>
         length rs =
           (case fst (try_export_image eng nombre aoi start end' epsg w) of Inl e \<Rightarrow> 0 | Inr b \<Rightarrow> 1) \<and>
         (\<forall>row\<in>set rs. data_row row \<and> hd row = Str nombre))"
proof -
  have whole: "\<exists>rs. rows (snd (main eng w)) = [Str ''Name'', Str ''% Clouds'', Str ''Status''] # rs \<and>
         (\<forall>row\<in>set rs. data_row row)"
    using main_rows [of eng w] by (simp add: header_def)
  from process_feature_years_rows [of eng incendioID aoi epsg years w]
  have fire: "\<exists>rs ms.
       rows (process_feature_years eng incendioID aoi epsg years w) = rows w @ rs \<and>
       console (process_feature_years eng incendioID aoi epsg years w) = console w @ ms \<and>
       length rs + length (filter is_Error_in ms) = length years"
    by blast
  obtain r w' where call: "try_export_image eng nombre aoi start end' epsg w = (r, w')"
    by (cases "try_export_image eng nombre aoi start end' epsg w") auto
  from try_export_image_rows [OF call]
  have attempt: "\<exists>rs. rows (snd (try_export_image eng nombre aoi start end' epsg w)) = rows w @ rs \<and>
         length rs =
           (case fst (try_export_image eng nombre aoi start end' epsg w) of Inl e \<Rightarrow> 0 | Inr b \<Rightarrow> 1) \<and>
         (\<forall>row\<in>set rs. data_row row \<and> hd row = Str nombre)"
    unfolding call by auto
  from whole fire attempt show ?thesis by blast
qed

text \<open>
  On the small archive, with no failing request: the header and one row for each of the
  two years.
\<close>

theorem output_file_rows_witness:
  "rows (snd (main example_engine (example_world []))) =
     [[Str ''Name'', Str ''% Clouds'', Str ''Status''],
      [Str ''F1_2022'', Num 0, Str ''Exported''], [Str ''F1_2023'', Num 0, Str ''Exported'']] \<and>
   data_row [Str ''F1_2022'', Num 0, Str ''Exported''] \<and>
   (\<exists>rs. rows (snd (main example_engine (example_world []))) =
           [Str ''Name'', Str ''% Clouds'', Str ''Status''] # rs \<and>
         (\<forall>row\<in>set rs. data_row row))"
  using output_file_rows [where eng = example_engine and w = "example_world []"]
  by (simp add: example_run_rows header_def)

text \<open>
  The claim as the specification states it (exactly one row for every attempt) fails when
  the first request of an attempt raises: of the two attempts of the fire (2022 and 2023),
  the first leaves the message of line 226 and no row.
\<close>

theorem attempt_that_raises_writes_no_row:
  "rows (snd (main example_engine (example_world [False, False, False, False, True]))) =
     [[Str ''Name'', Str ''% Clouds'', Str ''Status''], [Str ''F1_2023'', Num 0, Str ''Exported'']] \<and>
   console (snd (main example_engine (example_world [False, False, False, False, True]))) =
     [EPSG_for ''F1'' ''EPSG:25830'', Error_in ''F1_2022'' EEException,
      Clouds_in ''F1_2023'' 25, Retrying_in_July ''F1_2023'', Clouds_in ''F1_2023'' 0,
      Exporting ''F1_2023'']"
  using example_run_size_fault by (simp add: header_def)

text \<open>
  C3, as the code has it. An error of the request for the cloud percentage is caught in
  \<^verbatim>\<open>try_export_image\<close>, printed, and written as a row with the status \<^verbatim>\<open>Cloud error\<close>. Any other
  error raised inside \<^verbatim>\<open>try_export_image\<close> is caught by \<^verbatim>\<open>process_feature\<close> and printed; no row is
  written for it. In both cases the loop goes on with the next year: the years after an
  attempt are processed from the state the attempt left, whatever happened in it, and
  \<^verbatim>\<open>process_feature\<close> returns normally whenever its own three requests succeed, so that the
  next fire is processed. An error of one of these three requests is not caught: it ends
  the loop over the fires.
\<close>

theorem errors_are_logged_and_the_loop_goes_on:
  "(\<not> fault_at 0 w \<and> get_s2_sr_cld_col eng aoi start end' \<noteq> [] \<and> fault_at 1 w \<longrightarrow>
      try_export_image eng nombre aoi start end' epsg w =
        (Inr False,
         writerow [Str nombre, Str '''', Str ''Cloud error'']
           (py_print (Cloud_percentage_error nombre EEException) (after_requests 2 w)))) \<and>
   (try_export_image eng (incendioID @ ''_'' @ str_int anio) aoi (fromYMD anio 5 15) (fromYMD anio 6 15)
        epsg w = (Inl e, w1) \<longrightarrow>
      rows w1 = rows w \<and>
      process_feature_years eng incendioID aoi epsg (anio # rest) w =
        process_feature_years eng incendioID aoi epsg rest
          (py_print (Error_in (incendioID @ ''_'' @ str_int anio) e) w1)) \<and>
   process_feature_years eng incendioID aoi epsg (ys @ zs) w =
     process_feature_years eng incendioID aoi epsg zs
       (process_feature_years eng incendioID aoi epsg ys w) \<and>
   (requests_succeed 3 w \<longrightarrow> fst (process_feature eng ftr w) = Inr ()) \<and>
   (fst (process_feature eng ftr w) = Inr () \<longrightarrow>
      process_features eng (ftr # fires) w = process_features eng fires (snd (process_feature eng ftr w))) \<and>
   (fault_at 0 w \<or> fault_at 1 w \<or> fault_at 2 w \<longrightarrow>
      fst (process_features eng (ftr # fires) w) = Inl EEException \<and>
      rows (snd (process_features eng (ftr # fires) w)) = rows w)"
proof -
  have cloud_error: "try_export_image eng nombre aoi start end' epsg w =
        (Inr False,
         writerow [Str nombre, Str '''', Str ''Cloud error'']
           (py_print (Cloud_percentage_error nombre EEException) (after_requests 2 w)))"
    if "\<not> fault_at 0 w" "get_s2_sr_cld_col eng aoi start end' \<noteq> []" "fault_at 1 w"
    apply (subst try_export_image_unfold)
    using that
    apply (simp add: Let_def split: option.splits)
    done
  have caught: "rows w1 = rows w \<and>
      process_feature_years eng incendioID aoi epsg (anio # rest) w =
        process_feature_years eng incendioID aoi epsg rest
          (py_print (Error_in (incendioID @ ''_'' @ str_int anio) e) w1)"
    if call: "try_export_image eng (incendioID @ ''_'' @ str_int anio) aoi (fromYMD anio 5 15)
        (fromYMD anio 6 15) epsg w = (Inl e, w1)"
    using try_export_image_outcome [OF call] process_feature_years_Cons [OF call, of rest]
    by simp
  have goes_on: "process_feature_years eng incendioID aoi epsg (ys @ zs) w =
     process_feature_years eng incendioID aoi epsg zs
       (process_feature_years eng incendioID aoi epsg ys w)"
    by (rule process_feature_years_append)
  have returns: "fst (process_feature eng ftr w) = Inr ()" if "requests_succeed 3 w"
    using requests_succeed_3 [OF that] by (simp add: process_feature_unfold Let_def)
  have next_fire: "process_features eng (ftr # fires) w =
      process_features eng fires (snd (process_feature eng ftr w))"
    if "fst (process_feature eng ftr w) = Inr ()"
    using that by (cases "process_feature eng ftr w") simp
  have aborts: "fst (process_features eng (ftr # fires) w) = Inl EEException \<and>
      rows (snd (process_features eng (ftr # fires) w)) = rows w"
    if "fault_at 0 w \<or> fault_at 1 w \<or> fault_at 2 w"
    using that by (auto simp: process_feature_unfold Let_def)
  from cloud_error caught goes_on returns next_fire aborts show ?thesis by blast
qed

text \<open>
  On the small archive: when the request for the percentage raises, the call for 2022
  writes \<^verbatim>\<open>Cloud error\<close>; when its first request raises, the loop prints the message of
  line 226 and goes on with 2023; with no failing request \<^verbatim>\<open>process_feature\<close> returns.
\<close>

theorem errors_are_logged_and_the_loop_goes_on_witness:
  "try_export_image example_engine ''F1_2022'' example_aoi (fromYMD 2022 5 15) (fromYMD 2022 6 15)
     ''EPSG:25830'' (example_world [False, True]) =
     (Inr False,
      writerow [Str ''F1_2022'', Str '''', Str ''Cloud error'']
        (py_print (Cloud_percentage_error ''F1_2022'' EEException)
           (after_requests 2 (example_world [False, True])))) \<and>
   process_feature_years example_engine ''F1'' example_aoi ''EPSG:25830'' (2022 # [2023])
     (example_world [True]) =
     process_feature_years example_engine ''F1'' example_aoi ''EPSG:25830'' [2023]
       (py_print (Error_in (''F1'' @ ''_'' @ str_int 2022) EEException)
          (after_requests 1 (example_world [True]))) \<and>
   fst (process_feature example_engine example_fire (example_world [])) = Inr ()"
proof -
  have first: "\<not> fault_at 0 (example_world [False, True]) \<and>
      get_s2_sr_cld_col example_engine example_aoi (fromYMD 2022 5 15) (fromYMD 2022 6 15) \<noteq> [] \<and>
      fault_at 1 (example_world [False, True])"
    by (simp add: fault_at_example_world example_col_2022)
  have raised: "try_export_image example_engine (''F1'' @ ''_'' @ str_int 2022) example_aoi
      (fromYMD 2022 5 15) (fromYMD 2022 6 15) ''EPSG:25830'' (example_world [True]) =
      (Inl EEException, after_requests 1 (example_world [True]))"
    by (simp add: str_int_examples example_try_2022 fault_at_example_world)
  have succeed: "requests_succeed 3 (example_world [])"
    by (simp add: requests_succeed_def)
  from errors_are_logged_and_the_loop_goes_on
    [where eng = example_engine and aoi = example_aoi and start = "fromYMD 2022 5 15"
       and end' = "fromYMD 2022 6 15" and w = "example_world [False, True]"
       and nombre = "''F1_2022''" and epsg = "''EPSG:25830''"]
    first
  have a: "try_export_image example_engine ''F1_2022'' example_aoi (fromYMD 2022 5 15) (fromYMD 2022 6 15)
     ''EPSG:25830'' (example_world [False, True]) =
     (Inr False,
      writerow [Str ''F1_2022'', Str '''', Str ''Cloud error'']
        (py_print (Cloud_percentage_error ''F1_2022'' EEException)
           (after_requests 2 (example_world [False, True]))))"
    by blast
  from errors_are_logged_and_the_loop_goes_on
    [where eng = example_engine and aoi = example_aoi and incendioID = "''F1''" and anio = 2022
       and epsg = "''EPSG:25830''" and w = "example_world [True]" and e = EEException
       and ?w1.0 = "after_requests 1 (example_world [True])" and rest = "[2023]"]
    raised
  have b: "process_feature_years example_engine ''F1'' example_aoi ''EPSG:25830'' (2022 # [2023])
     (example_world [True]) =
     process_feature_years example_engine ''F1'' example_aoi ''EPSG:25830'' [2023]
       (py_print (Error_in (''F1'' @ ''_'' @ str_int 2022) EEException)
          (after_requests 1 (example_world [True])))"
    by blast
  from errors_are_logged_and_the_loop_goes_on
    [where eng = example_engine and ftr = example_fire and w = "example_world []"]
    succeed
  have c: "fst (process_feature example_engine example_fire (example_world [])) = Inr ()"
    by blast
  from a b c show ?thesis by blast
qed

text \<open>
  The claim as the specification states it (every failure is recorded as a row, and none
  ends the run) fails twice. When the start of the export job of 2022 raises, the message
  of line 226 is printed and the file has no row for 2022. When the request for the
  identifier of the first of two fires raises, the run ends with the exception: the file
  holds the header alone and nothing is printed for the second fire.
\<close>

theorem failure_outside_cloud_statistics_is_not_recorded:
  "console (snd (main example_engine
      (example_world [False, False, False, False, False, False, True]))) =
     [EPSG_for ''F1'' ''EPSG:25830'', Clouds_in ''F1_2022'' 0, Error_in ''F1_2022'' EEException,
      Clouds_in ''F1_2023'' 25, Retrying_in_July ''F1_2023'', Clouds_in ''F1_2023'' 0,
      Exporting ''F1_2023''] \<and>
   rows (snd (main example_engine
      (example_world [False, False, False, False, False, False, True]))) =
     [[Str ''Name'', Str ''% Clouds'', Str ''Status''], [Str ''F1_2023'', Num 0, Str ''Exported'']] \<and>
   main example_engine_two_fires (example_world [False, True]) =
     (Inl EEException,
      \<lparr>faults = [], rows = [[Str ''Name'', Str ''% Clouds'', Str ''Status'']], tasks = [],
       console = [], incendios_features = [example_fire, fire_of_2023]\<rparr>)"
  using example_run_start_fault example_run_id_fault by (simp add: header_def)

text \<open>
  C6, where the code departs from its own comment (line 215: up to 2024, inclusive).
  \<^verbatim>\<open>range(anioInicio + 1, 2024)\<close> are the years from the year after the fire to 2023: the year
  2024 is never among them, and for a fire of 2023 no attempt is made at all (only the
  message of line 210 is printed). The window of each attempt is May 15 to June 15.
\<close>

theorem year_2024_is_left_out:
  "set (py_range (anioInicio + 1) 2024) = {anioInicio + 1 .. 2023} \<and>
   2024 \<notin> set (py_range (anioInicio + 1) 2024) \<and>
   process_feature example_engine fire_of_2023 (example_world []) =
     (Inr (), py_print (EPSG_for ''F2'' ''EPSG:25830'') (after_requests 3 (example_world [])))"
  by (simp add: py_range_def example_process_fire_of_2023)

end
